theory Spec2Isabelle
  imports Main
begin

section \<open>Configuration store\<close>

text \<open>
  The configuration file of lofitui: a \<open>Config\<close> holds the ordered presets, a \<open>Preset\<close> is a
  name and a URL. Go strings are modelled as \<open>string\<close>. The slice \<open>Presets\<close> is a list; every
  configuration that the program hands to \<open>saveConfig\<close> holds a non-nil slice (a literal, or
  the result of \<open>append\<close>, or a slice whose element was just overwritten), so the list is all
  that the serialiser sees of it.
\<close>

record Preset =
  Name :: string
  URL :: string

record Config =
  Presets :: "Preset list"

text \<open>
  Go errors. \<open>errorString\<close> stands for an error value produced by the operating system or a
  library, \<open>Errorf\<close> for \<open>fmt.Errorf("<text>: %w", err)\<close>.
\<close>

datatype error = errorString string | Errorf string error

text \<open>
  What the program sees of its environment: the result of \<open>os.UserHomeDir\<close>, the variable
  \<open>XDG_CONFIG_HOME\<close>, and for every path whether a file is there (\<open>NotExist\<close> is the answer
  of \<open>os.Stat\<close> that \<open>os.IsNotExist\<close> recognises), cannot be read, or holds data.
  \<open>MkdirAll_error\<close> and \<open>WriteFile_error\<close> say for which paths these calls fail. A write
  that fails is taken to leave the file as it was.
\<close>

datatype file_state = NotExist | ReadFails error | Data string

record world =
  UserHomeDir :: "error + string"
  XDG_CONFIG_HOME :: string
  files :: "string \<Rightarrow> file_state"
  MkdirAll_error :: "string \<Rightarrow> error option"
  WriteFile_error :: "string \<Rightarrow> error option"

section \<open>The user interface state\<close>

datatype viewState =
    mainMenuView
  | customURLView
  | quitConfirmView
  | loadingView
  | managePresetsView
  | addPresetView
  | editPresetView
  | deleteConfirmView
  | restoreDefaultsConfirmView

text \<open>
  Messages of the event loop. A key message carries the text that \<open>msg.String()\<close> gives for
  it (\<open>''enter''\<close>, \<open>''esc''\<close>, \<open>''ctrl+c''\<close>, \<open>''a''\<close>, ...). \<open>OtherMsg\<close> stands for the
  messages the program does not name (spinner ticks, cursor blinks).
\<close>

datatype msg =
    streamURLMsg string "error option"
  | streamEndedMsg
  | WindowSizeMsg int int
  | KeyMsg string
  | OtherMsg nat

text \<open>
  Commands returned to the event loop. \<open>extractStreamURL u\<close> runs the resolver on \<open>u\<close>,
  \<open>playMPV u\<close> the player; \<open>LibCmd\<close> is a command returned by a widget of the library.
\<close>

datatype cmd =
    CmdNil
  | Quit
  | Blink
  | Tick
  | extractStreamURL string
  | playMPV string
  | Batch "cmd list"
  | LibCmd nat

subsection \<open>Widgets of the library\<close>

text \<open>
  The widgets (selectable list, text input, spinner) come from a library that is not part
  of the program. Their state is modelled by what the program reads and writes of them: the
  list by its items, the position of the highlight, its size and title; a text input by its
  text and focus. \<open>Index\<close> is never negative in the library, and \<open>selectedIndex\<close> of the
  model is only ever assigned from it, so both are natural numbers.
\<close>

record list_model =
  items :: "Preset list"
  Index :: nat
  Title :: string
  list_width :: int
  list_height :: int

record textinput =
  Value :: string
  focus :: bool
  Placeholder :: string
  Width :: int

type_synonym spinner = nat

text \<open>
  The functions of the libraries whose result the program uses without the program fixing
  it: joining path elements, the JSON encoder and decoder, trimming white space, and the
  reaction of each widget to a message. The theorems below hold for each choice of them;
  the one on saving after loading takes for the encoder and the decoder the functions of
  the section on JSON.
\<close>

record lib =
  Join :: "string \<Rightarrow> string \<Rightarrow> string"
  MarshalIndent :: "Config \<Rightarrow> error + string"
  Unmarshal :: "string \<Rightarrow> error + Config"
  TrimSpace :: "string \<Rightarrow> string"
  list_Update :: "msg \<Rightarrow> list_model \<Rightarrow> list_model \<times> cmd"
  textinput_Update :: "msg \<Rightarrow> textinput \<Rightarrow> textinput \<times> cmd"
  spinner_Update :: "msg \<Rightarrow> spinner \<Rightarrow> spinner \<times> cmd"

definition list_New :: "Preset list \<Rightarrow> int \<Rightarrow> int \<Rightarrow> list_model" where
  "list_New i w h = \<lparr>items = i, Index = 0, Title = ''List'', list_width = w, list_height = h\<rparr>"

definition SelectedItem :: "list_model \<Rightarrow> Preset option" where
  "SelectedItem l = (if Index l < length (items l) then Some (items l ! Index l) else None)"

text \<open>
  Modelled from the spec: \<open>SetItems\<close> of the selectable list, which is library code. The
  specification (Selectable List, \<open>replace(entries)\<close>) says that it "resets the backing
  sequence and clamps the highlighted index into range".
\<close>

definition SetItems :: "Preset list \<Rightarrow> list_model \<Rightarrow> list_model" where
  "SetItems i l = l\<lparr>items := i, Index := min (Index l) (length i - 1)\<rparr>"

definition SetWidth :: "int \<Rightarrow> list_model \<Rightarrow> list_model" where
  "SetWidth v l = l\<lparr>list_width := v\<rparr>"

definition SetHeight :: "int \<Rightarrow> list_model \<Rightarrow> list_model" where
  "SetHeight v l = l\<lparr>list_height := v\<rparr>"

definition textinput_New :: textinput where
  "textinput_New = \<lparr>Value = [], focus = False, Placeholder = [], Width = 0\<rparr>"

definition SetValue :: "string \<Rightarrow> textinput \<Rightarrow> textinput" where
  "SetValue s t = t\<lparr>Value := s\<rparr>"

definition Focus :: "textinput \<Rightarrow> textinput" where
  "Focus t = t\<lparr>focus := True\<rparr>"

definition Blur :: "textinput \<Rightarrow> textinput" where
  "Blur t = t\<lparr>focus := False\<rparr>"

record model =
  list :: list_model
  textInput :: textinput
  nameInput :: textinput
  urlInput :: textinput
  spinner :: spinner
  config :: Config
  state :: viewState
  quitting :: bool
  width :: int
  height :: int
  ready :: bool
  loadingTitle :: string
  selectedIndex :: nat
  focusedInput :: int

section \<open>The JSON encoding of the configuration file\<close>

text \<open>
  Modelled from the spec: the encoder and the decoder of the configuration file, which are
  library code (\<open>json.MarshalIndent\<close>, \<open>json.Unmarshal\<close>). The specification gives the
  file as the JSON object \<open>{"presets": [{"name": string, "url": string}, ...]}\<close>,
  "pretty-printed, 2-space indent", written in full at every save. Strings are written
  between double quotes with the escapes of JSON: the quote, the backslash and the control
  characters are escaped, and so are \<open><\<close>, \<open>>\<close> and \<open>&\<close>; every other character is
  written as it is.
\<close>

definition hexDigit :: "nat \<Rightarrow> char" where
  "hexDigit n = (if n < 10 then char_of (48 + n) else char_of (87 + n))"

definition hexVal :: "char \<Rightarrow> nat option" where
  "hexVal c =
     (let n = (of_char c :: nat) in
      if 48 \<le> n \<and> n \<le> 57 then Some (n - 48)
      else if 97 \<le> n \<and> n \<le> 102 then Some (n - 87)
      else if 65 \<le> n \<and> n \<le> 70 then Some (n - 55)
      else None)"

definition unicodeEscape :: "nat \<Rightarrow> string" where
  "unicodeEscape n =
     [CHR 0x5C, CHR ''u'', CHR ''0'', CHR ''0'', hexDigit (n div 16), hexDigit (n mod 16)]"

definition escapeChar :: "char \<Rightarrow> string" where
  "escapeChar c =
     (if c = CHR 0x22 then [CHR 0x5C, CHR 0x22]
      else if c = CHR 0x5C then [CHR 0x5C, CHR 0x5C]
      else if c = CHR 0x0A then [CHR 0x5C, CHR ''n'']
      else if c = CHR 0x0D then [CHR 0x5C, CHR ''r'']
      else if c = CHR 0x09 then [CHR 0x5C, CHR ''t'']
      else if (of_char c :: nat) < 32 \<or> c = CHR ''<'' \<or> c = CHR ''>'' \<or> c = CHR ''&'' then
        unicodeEscape (of_char c)
      else [c])"

definition quote :: "string \<Rightarrow> string" where
  "quote s = CHR 0x22 # concat (map escapeChar s) @ [CHR 0x22]"

definition newline :: string where
  "newline = [CHR 0x0A]"

definition presetJSON :: "Preset \<Rightarrow> string" where
  "presetJSON p =
     ''    {'' @ newline @
     ''      '' @ quote ''name'' @ '': '' @ quote (Name p) @ '','' @ newline @
     ''      '' @ quote ''url'' @ '': '' @ quote (URL p) @ newline @
     ''    }''"

fun presetsJSON :: "Preset list \<Rightarrow> string" where
  "presetsJSON [] = []"
| "presetsJSON [p] = presetJSON p @ newline"
| "presetsJSON (p # ps) = presetJSON p @ '','' @ newline @ presetsJSON ps"

text \<open>
  Modelled from the spec: \<open>json.MarshalIndent(config, "", "  ")\<close>, the text that a save
  writes. The object has the one key \<open>presets\<close>, each preset the keys \<open>name\<close> and \<open>url\<close>
  in this order; an empty list is written \<open>[]\<close>.
\<close>

definition json_MarshalIndent :: "Config \<Rightarrow> error + string" where
  "json_MarshalIndent c =
     Inr (''{'' @ newline @ ''  '' @ quote ''presets'' @ '': '' @
          (if Presets c = [] then ''[]'' else ''['' @ newline @ presetsJSON (Presets c) @ ''  ]'') @
          newline @ ''}'')"

text \<open>
  The decoder first splits the text into tokens, character by character: punctuation,
  strings with their escapes resolved, white space dropped. Any other character outside a
  string, a control character inside one, an unknown escape or a text ending inside a
  string is an error.
\<close>

datatype token = LBrace | RBrace | LBracket | RBracket | Colon | Comma | Str string

datatype lexmode = Out | InStr string | Esc string | Uni string "nat list"

definition utf8 :: "nat \<Rightarrow> string" where
  "utf8 n =
     (if n < 0x80 then [char_of n]
      else if n < 0x800 then [char_of (0xC0 + n div 64), char_of (0x80 + n mod 64)]
      else if 0xD800 \<le> n \<and> n < 0xE000 then [CHR 0xEF, CHR 0xBF, CHR 0xBD]
      else [char_of (0xE0 + n div 4096), char_of (0x80 + n div 64 mod 64),
            char_of (0x80 + n mod 64)])"

definition unescape :: "char \<Rightarrow> char option" where
  "unescape c =
     (if c = CHR 0x22 \<or> c = CHR 0x5C \<or> c = CHR ''/'' then Some c
      else if c = CHR ''b'' then Some (CHR 0x08)
      else if c = CHR ''f'' then Some (CHR 0x0C)
      else if c = CHR ''n'' then Some (CHR 0x0A)
      else if c = CHR ''r'' then Some (CHR 0x0D)
      else if c = CHR ''t'' then Some (CHR 0x09)
      else None)"

fun lexStep :: "lexmode \<Rightarrow> char \<Rightarrow> (token list \<times> lexmode) option" where
  "lexStep Out c =
     (if c = CHR '' '' \<or> c = CHR 0x09 \<or> c = CHR 0x0A \<or> c = CHR 0x0D then Some ([], Out)
      else if c = CHR ''{'' then Some ([LBrace], Out)
      else if c = CHR ''}'' then Some ([RBrace], Out)
      else if c = CHR ''['' then Some ([LBracket], Out)
      else if c = CHR '']'' then Some ([RBracket], Out)
      else if c = CHR '':'' then Some ([Colon], Out)
      else if c = CHR '','' then Some ([Comma], Out)
      else if c = CHR 0x22 then Some ([], InStr [])
      else None)"
| "lexStep (InStr acc) c =
     (if c = CHR 0x22 then Some ([Str acc], Out)
      else if c = CHR 0x5C then Some ([], Esc acc)
      else if (of_char c :: nat) < 32 then None
      else Some ([], InStr (acc @ [c])))"
| "lexStep (Esc acc) c =
     (if c = CHR ''u'' then Some ([], Uni acc [])
      else (case unescape c of
              Some b \<Rightarrow> Some ([], InStr (acc @ [b]))
            | None \<Rightarrow> None))"
| "lexStep (Uni acc ds) c =
     (case hexVal c of
        None \<Rightarrow> None
      | Some d \<Rightarrow>
          (if length ds < 3 then Some ([], Uni acc (ds @ [d]))
           else Some ([], InStr (acc @ utf8 (foldl (\<lambda>a x. 16 * a + x) 0 (ds @ [d]))))))"

fun lexRun :: "lexmode \<Rightarrow> string \<Rightarrow> (token list \<times> lexmode) option" where
  "lexRun m [] = Some ([], m)"
| "lexRun m (c # cs) =
     (case lexStep m c of
        None \<Rightarrow> None
      | Some (ts, m') \<Rightarrow>
          (case lexRun m' cs of
             None \<Rightarrow> None
           | Some (ts', m'') \<Rightarrow> Some (ts @ ts', m'')))"

definition lex :: "string \<Rightarrow> token list option" where
  "lex s = (case lexRun Out s of Some (ts, Out) \<Rightarrow> Some ts | _ \<Rightarrow> None)"

text \<open>
  An object of the list is read member by member; a later member overrides an earlier one
  and a key other than \<open>name\<close> and \<open>url\<close> is ignored.
\<close>

definition setField :: "string \<Rightarrow> string \<Rightarrow> Preset \<Rightarrow> Preset" where
  "setField k v p =
     (if k = ''name'' then p\<lparr>Name := v\<rparr> else if k = ''url'' then p\<lparr>URL := v\<rparr> else p)"

fun members :: "Preset \<Rightarrow> token list \<Rightarrow> (Preset \<times> token list) option" where
  "members p (Str k # Colon # Str v # Comma # ts) = members (setField k v p) ts"
| "members p (Str k # Colon # Str v # RBrace # ts) = Some (setField k v p, ts)"
| "members p ts = None"

fun parsePreset :: "token list \<Rightarrow> (Preset \<times> token list) option" where
  "parsePreset (LBrace # RBrace # ts) = Some (\<lparr>Name = [], URL = []\<rparr>, ts)"
| "parsePreset (LBrace # ts) = members \<lparr>Name = [], URL = []\<rparr> ts"
| "parsePreset ts = None"

function elements :: "token list \<Rightarrow> (Preset list \<times> token list) option" where
  "elements ts =
     (case parsePreset ts of
        Some (p, Comma # ts') \<Rightarrow>
          (case elements ts' of
             Some (ps, r) \<Rightarrow> Some (p # ps, r)
           | None \<Rightarrow> None)
      | Some (p, RBracket # ts') \<Rightarrow> Some ([p], ts')
      | _ \<Rightarrow> None)"
  by pat_completeness auto
termination
proof -
  have m: "members p ts = Some (q, r) \<Longrightarrow> length r < length ts" for p ts q r
    by (induction p ts rule: members.induct) auto
  have pp: "parsePreset ts = Some (q, r) \<Longrightarrow> length r < length ts" for ts q r
    by (induction ts rule: parsePreset.induct) (auto dest: m)
  show ?thesis
    by (relation "measure length") (auto dest: pp)
qed

definition unmarshalTokens :: "token list \<Rightarrow> Config option" where
  "unmarshalTokens ts =
     (case ts of
        LBrace # ts1 \<Rightarrow>
          (if ts1 = [RBrace] then Some \<lparr>Presets = []\<rparr>
           else (case ts1 of
                   Str k # ts2 \<Rightarrow>
                     (if k = ''presets'' \<and> take 2 ts2 = [Colon, LBracket] then
                        (if drop 2 ts2 = [RBracket, RBrace] then Some \<lparr>Presets = []\<rparr>
                         else (case elements (drop 2 ts2) of
                                 Some (ps, r) \<Rightarrow>
                                   (if r = [RBrace] then Some \<lparr>Presets = ps\<rparr> else None)
                               | None \<Rightarrow> None))
                      else None)
                 | _ \<Rightarrow> None))
      | _ \<Rightarrow> None)"

text \<open>
  Modelled from the spec: \<open>json.Unmarshal(data, &config)\<close>, the reading of the file. A text
  that is not of the form given above is an error.
\<close>

definition json_Unmarshal :: "string \<Rightarrow> error + Config" where
  "json_Unmarshal d =
     (case lex d of
        None \<Rightarrow> Inl (errorString ''invalid character'')
      | Some ts \<Rightarrow>
          (case unmarshalTokens ts of
             None \<Rightarrow> Inl (errorString ''cannot unmarshal'')
           | Some c \<Rightarrow> Inr c))"

text \<open>The tokens that the decoder reads from an encoded list of presets.\<close>

definition presetTokens :: "Preset \<Rightarrow> token list" where
  "presetTokens p =
     [LBrace, Str ''name'', Colon, Str (Name p), Comma, Str ''url'', Colon, Str (URL p), RBrace]"

fun presetsTokens :: "Preset list \<Rightarrow> token list" where
  "presetsTokens [] = []"
| "presetsTokens [p] = presetTokens p"
| "presetsTokens (p # ps) = presetTokens p @ Comma # presetsTokens ps"

section \<open>Loading and saving the configuration\<close>

definition getDefaultConfig :: Config where
  "getDefaultConfig = \<lparr>Presets = [
     \<lparr>Name = ''Lofi Girl - Study'', URL = ''https://www.youtube.com/watch?v=jfKfPfyJRdk''\<rparr>,
     \<lparr>Name = ''Lofi Girl - Sleep'', URL = ''https://www.youtube.com/watch?v=DWcJFNfaw9c''\<rparr>,
     \<lparr>Name = ''Lofi Girl - Jazz'', URL = ''https://www.youtube.com/watch?v=HuFYqnbVbzY''\<rparr>,
     \<lparr>Name = ''Synthwave Radio'', URL = ''https://www.youtube.com/watch?v=4xDzrJKXOOY''\<rparr>,
     \<lparr>Name = ''Chillhop Music'', URL = ''https://www.youtube.com/watch?v=5yx6BWlEVcY''\<rparr>,
     \<lparr>Name = ''The Bootleg Boy'', URL = ''https://www.youtube.com/watch?v=FWjZ0x2M8og''\<rparr>,
     \<lparr>Name = ''Dreamhop Music'', URL = ''https://www.youtube.com/live/D5bqo8lcny4''\<rparr>,
     \<lparr>Name = ''Lofi Geek'', URL = ''https://www.youtube.com/watch?v=1tJ8sc8I4z0''\<rparr>,
     \<lparr>Name = ''STEEZYASFUCK'', URL = ''https://www.youtube.com/watch?v=S_MOd40zlYU''\<rparr>,
     \<lparr>Name = ''Homework Radio'', URL = ''https://www.youtube.com/watch?v=lTRiuFIWV54''\<rparr>]\<rparr>"

definition getConfigDir :: "lib \<Rightarrow> world \<Rightarrow> error + string" where
  "getConfigDir L w =
     (case UserHomeDir w of
        Inl err \<Rightarrow> Inl err
      | Inr homeDir \<Rightarrow>
          (let configHome = XDG_CONFIG_HOME w;
               configHome = (if configHome = [] then Join L homeDir ''.config'' else configHome)
           in Inr (Join L configHome ''lofitui'')))"

definition getConfigPath :: "lib \<Rightarrow> world \<Rightarrow> error + string" where
  "getConfigPath L w =
     (case getConfigDir L w of
        Inl err \<Rightarrow> Inl err
      | Inr configDir \<Rightarrow> Inr (Join L configDir ''config.json''))"

definition loadConfig :: "lib \<Rightarrow> world \<Rightarrow> error + Config" where
  "loadConfig L w =
     (case getConfigPath L w of
        Inl err \<Rightarrow> Inl err
      | Inr configPath \<Rightarrow>
          (case files w configPath of
             NotExist \<Rightarrow> Inr getDefaultConfig
           | ReadFails err \<Rightarrow> Inl (Errorf ''failed to read config'' err)
           | Data d \<Rightarrow>
               (case Unmarshal L d of
                  Inl err \<Rightarrow> Inl (Errorf ''failed to parse config'' err)
                | Inr c \<Rightarrow> Inr c)))"

text \<open>\<open>saveConfig\<close> returns the error (\<open>None\<close> is Go's \<open>nil\<close>) and the environment after it.\<close>

definition saveConfig :: "lib \<Rightarrow> Config \<Rightarrow> world \<Rightarrow> error option \<times> world" where
  "saveConfig L c w =
     (case getConfigDir L w of
        Inl err \<Rightarrow> (Some err, w)
      | Inr configDir \<Rightarrow>
          (case MkdirAll_error w configDir of
             Some err \<Rightarrow> (Some (Errorf ''failed to create config directory'' err), w)
           | None \<Rightarrow>
               (case getConfigPath L w of
                  Inl err \<Rightarrow> (Some err, w)
                | Inr configPath \<Rightarrow>
                    (case MarshalIndent L c of
                       Inl err \<Rightarrow> (Some (Errorf ''failed to marshal config'' err), w)
                     | Inr d \<Rightarrow>
                         (case WriteFile_error w configPath of
                            Some err \<Rightarrow> (Some (Errorf ''failed to write config'' err), w)
                          | None \<Rightarrow> (None, w\<lparr>files := (files w)(configPath := Data d)\<rparr>))))))"

section \<open>The menu state machine\<close>

definition initialModel :: "lib \<Rightarrow> world \<Rightarrow> model \<times> world" where
  "initialModel L w =
     (let (config, w') =
            (case loadConfig L w of
               Inl err \<Rightarrow> (getDefaultConfig, snd (saveConfig L getDefaultConfig w))
             | Inr c \<Rightarrow> (c, w));
          items = Presets config;
          l = (list_New items 20 (int (length items)))\<lparr>Title := ''LofiTUI - Select a Stream''\<rparr>;
          ti = textinput_New\<lparr>Placeholder := ''Paste YouTube URL here'', Width := 50\<rparr>;
          ni = textinput_New\<lparr>Placeholder := ''Preset Name'', Width := 50\<rparr>;
          ui = textinput_New\<lparr>Placeholder := ''YouTube URL'', Width := 50\<rparr>
      in (\<lparr>list = l, textInput = ti, nameInput = ni, urlInput = ui, spinner = 0,
           config = config, state = mainMenuView, quitting = False, width = 0, height = 0,
           ready = False, loadingTitle = [], selectedIndex = 0, focusedInput = 0\<rparr>, w'))"

definition refreshList :: "model \<Rightarrow> model" where
  "refreshList m = m\<lparr>list := SetItems (Presets (config m)) (list m)\<rparr>"

text \<open>
  The reaction to a key, one function for each state. The result is \<open>None\<close> where the Go
  code leaves the \<open>switch\<close> without returning; the model has not been changed at any such
  place, and the message then goes to the widget of the state.
\<close>

definition keyMainMenu :: "string \<Rightarrow> model \<Rightarrow> (model \<times> cmd) option" where
  "keyMainMenu k m =
     (if k = ''ctrl+c'' \<or> k = ''q'' then Some (m\<lparr>state := quitConfirmView\<rparr>, CmdNil)
      else if k = ''c'' then
        Some (m\<lparr>state := customURLView, textInput := Focus (textInput m)\<rparr>, Blink)
      else if k = ''m'' then Some (m\<lparr>state := managePresetsView\<rparr>, CmdNil)
      else if k = ''enter'' then
        (case SelectedItem (list m) of
           Some preset \<Rightarrow>
             Some (m\<lparr>state := loadingView, loadingTitle := Name preset\<rparr>,
                   Batch [Tick, extractStreamURL (URL preset)])
         | None \<Rightarrow> None)
      else None)"

definition keyCustomURL :: "string \<Rightarrow> model \<Rightarrow> (model \<times> cmd) option" where
  "keyCustomURL k m =
     (if k = ''ctrl+c'' \<or> k = ''esc'' then
        Some (m\<lparr>state := mainMenuView, textInput := SetValue [] (textInput m)\<rparr>, CmdNil)
      else if k = ''enter'' then
        (let url = Value (textInput m) in
         if url \<noteq> [] then
           Some (m\<lparr>state := loadingView, loadingTitle := ''Custom Stream'',
                    textInput := SetValue [] (textInput m)\<rparr>,
                 Batch [Tick, extractStreamURL url])
         else None)
      else None)"

definition keyQuitConfirm :: "string \<Rightarrow> model \<Rightarrow> (model \<times> cmd) option" where
  "keyQuitConfirm k m =
     (if k = ''y'' \<or> k = ''Y'' then Some (m\<lparr>quitting := True\<rparr>, Quit)
      else if k = ''n'' \<or> k = ''N'' \<or> k = ''esc'' then Some (m\<lparr>state := mainMenuView\<rparr>, CmdNil)
      else None)"

definition keyManagePresets :: "string \<Rightarrow> model \<Rightarrow> (model \<times> cmd) option" where
  "keyManagePresets k m =
     (if k = ''esc'' then Some (m\<lparr>state := mainMenuView\<rparr>, CmdNil)
      else if k = ''a'' then
        Some (m\<lparr>state := addPresetView,
                 nameInput := Focus (SetValue [] (nameInput m)),
                 urlInput := Blur (SetValue [] (urlInput m)),
                 focusedInput := 0\<rparr>, Blink)
      else if k = ''e'' then
        (case SelectedItem (list m) of
           Some preset \<Rightarrow>
             Some (m\<lparr>state := editPresetView,
                      selectedIndex := Index (list m),
                      nameInput := Focus (SetValue (Name preset) (nameInput m)),
                      urlInput := Blur (SetValue (URL preset) (urlInput m)),
                      focusedInput := 0\<rparr>, Blink)
         | None \<Rightarrow> None)
      else if k = ''d'' \<or> k = ''x'' then
        Some (m\<lparr>state := deleteConfirmView, selectedIndex := Index (list m)\<rparr>, CmdNil)
      else if k = ''r'' then Some (m\<lparr>state := restoreDefaultsConfirmView\<rparr>, CmdNil)
      else if k = ''enter'' then
        (case SelectedItem (list m) of
           Some preset \<Rightarrow>
             Some (m\<lparr>state := loadingView, loadingTitle := Name preset\<rparr>,
                   Batch [Tick, extractStreamURL (URL preset)])
         | None \<Rightarrow> None)
      else None)"

definition toggleFocus :: "model \<Rightarrow> model" where
  "toggleFocus m =
     (if focusedInput m = 0 then
        m\<lparr>focusedInput := 1, nameInput := Blur (nameInput m), urlInput := Focus (urlInput m)\<rparr>
      else
        m\<lparr>focusedInput := 0, nameInput := Focus (nameInput m), urlInput := Blur (urlInput m)\<rparr>)"

text \<open>
  The handlers that change the configuration also call \<open>saveConfig\<close>, whose error they drop;
  they take the environment and return it as the call left it.
\<close>

definition keyAddPreset :: "lib \<Rightarrow> string \<Rightarrow> model \<Rightarrow> world \<Rightarrow> (model \<times> cmd \<times> world) option" where
  "keyAddPreset L k m w =
     (if k = ''esc'' then Some (m\<lparr>state := managePresetsView\<rparr>, CmdNil, w)
      else if k = ''tab'' \<or> k = ''shift+tab'' then Some (toggleFocus m, Blink, w)
      else if k = ''enter'' then
        (let name = TrimSpace L (Value (nameInput m));
             url = TrimSpace L (Value (urlInput m)) in
         if name \<noteq> [] \<and> url \<noteq> [] then
           (let newPreset = \<lparr>Name = name, URL = url\<rparr>;
                m1 = m\<lparr>config := (config m)\<lparr>Presets := Presets (config m) @ [newPreset]\<rparr>\<rparr>;
                w' = snd (saveConfig L (config m1) w);
                m2 = refreshList m1
            in Some (m2\<lparr>state := managePresetsView\<rparr>, CmdNil, w'))
         else Some (m, CmdNil, w))
      else None)"

definition keyEditPreset :: "lib \<Rightarrow> string \<Rightarrow> model \<Rightarrow> world \<Rightarrow> (model \<times> cmd \<times> world) option" where
  "keyEditPreset L k m w =
     (if k = ''esc'' then Some (m\<lparr>state := managePresetsView\<rparr>, CmdNil, w)
      else if k = ''tab'' \<or> k = ''shift+tab'' then Some (toggleFocus m, Blink, w)
      else if k = ''enter'' then
        (let name = TrimSpace L (Value (nameInput m));
             url = TrimSpace L (Value (urlInput m)) in
         if name \<noteq> [] \<and> url \<noteq> [] \<and> selectedIndex m < length (Presets (config m)) then
           (let m1 = m\<lparr>config := (config m)\<lparr>Presets :=
                       (Presets (config m))[selectedIndex m := \<lparr>Name = name, URL = url\<rparr>]\<rparr>\<rparr>;
                w' = snd (saveConfig L (config m1) w);
                m2 = refreshList m1
            in Some (m2\<lparr>state := managePresetsView\<rparr>, CmdNil, w'))
         else Some (m, CmdNil, w))
      else None)"

definition keyDeleteConfirm :: "lib \<Rightarrow> string \<Rightarrow> model \<Rightarrow> world \<Rightarrow> (model \<times> cmd \<times> world) option" where
  "keyDeleteConfirm L k m w =
     (if k = ''y'' \<or> k = ''Y'' then
        (if selectedIndex m < length (Presets (config m)) then
           (let m1 = m\<lparr>config := (config m)\<lparr>Presets :=
                       take (selectedIndex m) (Presets (config m)) @
                       drop (selectedIndex m + 1) (Presets (config m))\<rparr>\<rparr>;
                w' = snd (saveConfig L (config m1) w);
                m2 = refreshList m1
            in Some (m2\<lparr>state := managePresetsView\<rparr>, CmdNil, w'))
         else Some (m\<lparr>state := managePresetsView\<rparr>, CmdNil, w))
      else if k = ''n'' \<or> k = ''N'' \<or> k = ''esc'' then
        Some (m\<lparr>state := managePresetsView\<rparr>, CmdNil, w)
      else None)"

definition keyRestoreDefaultsConfirm ::
  "lib \<Rightarrow> string \<Rightarrow> model \<Rightarrow> world \<Rightarrow> (model \<times> cmd \<times> world) option" where
  "keyRestoreDefaultsConfirm L k m w =
     (if k = ''y'' \<or> k = ''Y'' then
        (let m1 = m\<lparr>config := getDefaultConfig\<rparr>;
             w' = snd (saveConfig L (config m1) w);
             m2 = refreshList m1
         in Some (m2\<lparr>state := managePresetsView\<rparr>, CmdNil, w'))
      else if k = ''n'' \<or> k = ''N'' \<or> k = ''esc'' then
        Some (m\<lparr>state := managePresetsView\<rparr>, CmdNil, w)
      else None)"

definition withWorld :: "world \<Rightarrow> (model \<times> cmd) option \<Rightarrow> (model \<times> cmd \<times> world) option" where
  "withWorld w r = (case r of None \<Rightarrow> None | Some (m, c) \<Rightarrow> Some (m, c, w))"

definition handleKey :: "lib \<Rightarrow> string \<Rightarrow> model \<Rightarrow> world \<Rightarrow> (model \<times> cmd \<times> world) option" where
  "handleKey L k m w =
     (case state m of
        mainMenuView \<Rightarrow> withWorld w (keyMainMenu k m)
      | customURLView \<Rightarrow> withWorld w (keyCustomURL k m)
      | quitConfirmView \<Rightarrow> withWorld w (keyQuitConfirm k m)
      | loadingView \<Rightarrow> None
      | managePresetsView \<Rightarrow> withWorld w (keyManagePresets k m)
      | addPresetView \<Rightarrow> keyAddPreset L k m w
      | editPresetView \<Rightarrow> keyEditPreset L k m w
      | deleteConfirmView \<Rightarrow> keyDeleteConfirm L k m w
      | restoreDefaultsConfirmView \<Rightarrow> keyRestoreDefaultsConfirm L k m w)"

text \<open>The end of \<open>Update\<close>: the message goes to the widget that belongs to the state.\<close>

definition updateWidget :: "lib \<Rightarrow> msg \<Rightarrow> model \<Rightarrow> model \<times> cmd" where
  "updateWidget L ms m =
     (case state m of
        mainMenuView \<Rightarrow> (let (l, c) = list_Update L ms (list m) in (m\<lparr>list := l\<rparr>, c))
      | managePresetsView \<Rightarrow> (let (l, c) = list_Update L ms (list m) in (m\<lparr>list := l\<rparr>, c))
      | customURLView \<Rightarrow>
          (let (t, c) = textinput_Update L ms (textInput m) in (m\<lparr>textInput := t\<rparr>, c))
      | loadingView \<Rightarrow>
          (let (s, c) = spinner_Update L ms (spinner m) in (m\<lparr>spinner := s\<rparr>, c))
      | addPresetView \<Rightarrow>
          (if focusedInput m = 0
           then (let (t, c) = textinput_Update L ms (nameInput m) in (m\<lparr>nameInput := t\<rparr>, c))
           else (let (t, c) = textinput_Update L ms (urlInput m) in (m\<lparr>urlInput := t\<rparr>, c)))
      | editPresetView \<Rightarrow>
          (if focusedInput m = 0
           then (let (t, c) = textinput_Update L ms (nameInput m) in (m\<lparr>nameInput := t\<rparr>, c))
           else (let (t, c) = textinput_Update L ms (urlInput m) in (m\<lparr>urlInput := t\<rparr>, c)))
      | _ \<Rightarrow> (m, CmdNil))"

definition update :: "lib \<Rightarrow> msg \<Rightarrow> model \<Rightarrow> world \<Rightarrow> model \<times> cmd \<times> world" where
  "update L ms m w =
     (case ms of
        streamURLMsg url err \<Rightarrow>
          (case err of
             Some e \<Rightarrow> (m\<lparr>state := mainMenuView\<rparr>, CmdNil, w)
           | None \<Rightarrow> (m, playMPV url, w))
      | streamEndedMsg \<Rightarrow> (m\<lparr>state := mainMenuView\<rparr>, CmdNil, w)
      | WindowSizeMsg Width' Height' \<Rightarrow>
          (let listHeight = Height' - 4;
               listHeight = (if listHeight < 5 then 5 else listHeight);
               inputWidth = Width' - 20;
               inputWidth = (if inputWidth < 30 then 30 else inputWidth);
               inputWidth = (if inputWidth > 80 then 80 else inputWidth)
           in (m\<lparr>width := Width', height := Height', ready := True,
                  list := SetHeight listHeight (SetWidth Width' (list m)),
                  textInput := (textInput m)\<lparr>Width := inputWidth\<rparr>\<rparr>, CmdNil, w))
      | KeyMsg k \<Rightarrow>
          (case handleKey L k m w of
             Some r \<Rightarrow> r
           | None \<Rightarrow> (let (m', c) = updateWidget L ms m in (m', c, w)))
      | OtherMsg n \<Rightarrow> (let (m', c) = updateWidget L ms m in (m', c, w)))"

section \<open>A concrete library and environment\<close>

text \<open>
  One choice of the library functions and of the environment, on which the theorems are
  run: white space is trimmed at both ends, paths are joined with a slash, the widgets do
  not react, and the configuration file is JSON as above.
\<close>

definition isSpace :: "char \<Rightarrow> bool" where
  "isSpace c = (c = CHR '' '' \<or> c = CHR 0x09 \<or> c = CHR 0x0A \<or> c = CHR 0x0B \<or> c = CHR 0x0C
     \<or> c = CHR 0x0D)"

definition trimSpace :: "string \<Rightarrow> string" where
  "trimSpace s = rev (dropWhile isSpace (rev (dropWhile isSpace s)))"

definition demoLib :: lib where
  "demoLib = \<lparr>
     Join = (\<lambda>a b. a @ ''/'' @ b),
     MarshalIndent = json_MarshalIndent,
     Unmarshal = json_Unmarshal,
     TrimSpace = trimSpace,
     list_Update = (\<lambda>ms l. (l, CmdNil)),
     textinput_Update = (\<lambda>ms t. (t, CmdNil)),
     spinner_Update = (\<lambda>ms s. (s, CmdNil))\<rparr>"

definition demoWorld :: world where
  "demoWorld = \<lparr>
     UserHomeDir = Inr ''/home/u'',
     XDG_CONFIG_HOME = [],
     files = (\<lambda>p. NotExist),
     MkdirAll_error = (\<lambda>p. None),
     WriteFile_error = (\<lambda>p. None)\<rparr>"

definition demoModel :: model where
  "demoModel = fst (initialModel demoLib demoWorld)"

definition mutation :: "lib \<Rightarrow> string \<Rightarrow> model \<Rightarrow> Config option" where
  "mutation L k m =
     (let name = TrimSpace L (Value (nameInput m));
          url = TrimSpace L (Value (urlInput m));
          ps = Presets (config m);
          i = selectedIndex m
      in case state m of
           addPresetView \<Rightarrow>
             (if k = ''enter'' \<and> name \<noteq> [] \<and> url \<noteq> []
              then Some ((config m)\<lparr>Presets := ps @ [\<lparr>Name = name, URL = url\<rparr>]\<rparr>) else None)
         | editPresetView \<Rightarrow>
             (if k = ''enter'' \<and> name \<noteq> [] \<and> url \<noteq> [] \<and> i < length ps
              then Some ((config m)\<lparr>Presets := ps[i := \<lparr>Name = name, URL = url\<rparr>]\<rparr>) else None)
         | deleteConfirmView \<Rightarrow>
             (if (k = ''y'' \<or> k = ''Y'') \<and> i < length ps
              then Some ((config m)\<lparr>Presets := take i ps @ drop (Suc i) ps\<rparr>) else None)
         | restoreDefaultsConfirmView \<Rightarrow>
             (if k = ''y'' \<or> k = ''Y'' then Some getDefaultConfig else None)
         | _ \<Rightarrow> None)"

definition addModel :: "string \<Rightarrow> string \<Rightarrow> model" where
  "addModel n u = demoModel\<lparr>state := addPresetView,
     nameInput := SetValue n (nameInput demoModel),
     urlInput := SetValue u (urlInput demoModel)\<rparr>"

definition customModel :: "string \<Rightarrow> model" where
  "customModel u = demoModel\<lparr>state := customURLView,
     textInput := Focus (SetValue u (textInput demoModel))\<rparr>"

definition deleteModel :: "nat \<Rightarrow> model" where
  "deleteModel i = demoModel\<lparr>list := (list demoModel)\<lparr>Index := i\<rparr>,
     state := deleteConfirmView, selectedIndex := i\<rparr>"

text \<open>
  The environment after a configuration without presets has been saved, and the model
  after starting there and pressing \<open>m\<close>: the ManagePresets state with an empty list.
\<close>

definition emptyWorld :: world where
  "emptyWorld = snd (saveConfig demoLib \<lparr>Presets = []\<rparr> demoWorld)"

definition emptyManageModel :: model where
  "emptyManageModel =
     fst (update demoLib (KeyMsg ''m'') (fst (initialModel demoLib emptyWorld)) emptyWorld)"

definition manageModel :: "nat \<Rightarrow> model" where
  "manageModel i = demoModel\<lparr>list := (list demoModel)\<lparr>Index := i\<rparr>, state := managePresetsView\<rparr>"

text \<open>
  The scenario of one preset: in the environment whose file holds no preset, the model in
  which \<open>Test\<close> and its URL have been typed into the AddPreset dialogue; the model and the
  environment after the confirm key; and that model after the delete key. \<open>emptyFile\<close> and
  \<open>testFile\<close> are the texts of a configuration file without presets and with that one.
\<close>

definition testAddModel :: model where
  "testAddModel = emptyManageModel\<lparr>state := addPresetView,
     nameInput := SetValue '' Test'' (nameInput emptyManageModel),
     urlInput := SetValue ''https://x/y '' (urlInput emptyManageModel)\<rparr>"

definition testModel :: model where
  "testModel = fst (update demoLib (KeyMsg ''enter'') testAddModel emptyWorld)"

definition testWorld :: world where
  "testWorld = snd (snd (update demoLib (KeyMsg ''enter'') testAddModel emptyWorld))"

definition testDeleteModel :: model where
  "testDeleteModel = fst (update demoLib (KeyMsg ''d'') testModel testWorld)"

definition emptyFile :: string where
  "emptyFile =
     ''{'' @ [CHR 0x0A] @
     ''  '' @ [CHR 0x22] @ ''presets'' @ [CHR 0x22] @ '': []'' @ [CHR 0x0A] @
     ''}''"

definition testFile :: string where
  "testFile =
     ''{'' @ [CHR 0x0A] @
     ''  '' @ [CHR 0x22] @ ''presets'' @ [CHR 0x22] @ '': ['' @ [CHR 0x0A] @
     ''    {'' @ [CHR 0x0A] @
     ''      '' @ [CHR 0x22] @ ''name'' @ [CHR 0x22] @ '': '' @
         [CHR 0x22] @ ''Test'' @ [CHR 0x22] @ '','' @ [CHR 0x0A] @
     ''      '' @ [CHR 0x22] @ ''url'' @ [CHR 0x22] @ '': '' @
         [CHR 0x22] @ ''https://x/y'' @ [CHR 0x22] @ [CHR 0x0A] @
     ''    }'' @ [CHR 0x0A] @
     ''  ]'' @ [CHR 0x0A] @
     ''}''"

text \<open>An environment in which every write of a file fails.\<close>

definition readOnlyWorld :: world where
  "readOnlyWorld = demoWorld\<lparr>WriteFile_error := (\<lambda>p. Some (errorString ''permission denied''))\<rparr>"




text \<open>A configuration whose texts need every kind of escape, and the environment after saving it.\<close>

definition escapedConfig :: Config where
  "escapedConfig = \<lparr>Presets = [
     \<lparr>Name = ''Lofi <'' @ [CHR 0x22] @ ''Girl'' @ [CHR 0x22, CHR 0x5C, CHR 0x0A, CHR 0x01],
      URL = ''https://x/y?a=1&b=2''\<rparr>,
     \<lparr>Name = ''Jazz'', URL = []\<rparr>]\<rparr>"

definition escapedWorld :: world where
  "escapedWorld = snd (saveConfig demoLib escapedConfig demoWorld)"

section \<open>Properties\<close>

subsection \<open>The JSON encoding\<close>

lemma lexRun_append:
  "lexRun m (xs @ ys) =
     (case lexRun m xs of
        None \<Rightarrow> None
      | Some (ts, m') \<Rightarrow>
          (case lexRun m' ys of
             None \<Rightarrow> None
           | Some (ts', m'') \<Rightarrow> Some (ts @ ts', m'')))"
  by (induction xs arbitrary: m) (auto split: option.splits)

lemma hexVal_hexDigit: "n < 16 \<Longrightarrow> hexVal (hexDigit n) = Some n"
  by (auto simp add: hexVal_def hexDigit_def Let_def)

lemma hexVal_0: "hexVal (CHR ''0'') = Some 0"
  by (simp add: hexVal_def)

lemma lexRun_unicodeEscape:
  assumes "(of_char c :: nat) < 128"
  shows "lexRun (InStr acc) (unicodeEscape (of_char c)) = Some ([], InStr (acc @ [c]))"
proof -
  have d: "(of_char c :: nat) div 16 < 16" "(of_char c :: nat) mod 16 < 16"
    using assms by auto
  have "16 * ((of_char c :: nat) div 16) + of_char c mod 16 = of_char c"
    by simp
  then show ?thesis
    using assms
    by (simp add: unicodeEscape_def hexVal_0 hexVal_hexDigit [OF d(1)] hexVal_hexDigit [OF d(2)]
        utf8_def)
qed

lemma lexRun_escapeChar:
  "lexRun (InStr acc) (escapeChar c) = Some ([], InStr (acc @ [c]))"
proof (cases "(of_char c :: nat) < 32 \<or> c = CHR ''<'' \<or> c = CHR ''>'' \<or> c = CHR ''&''")
  case True
  then have "(of_char c :: nat) < 128" by auto
  then show ?thesis
    by (auto simp add: escapeChar_def unescape_def lexRun_unicodeEscape)
next
  case False
  then show ?thesis
    by (auto simp add: escapeChar_def unescape_def)
qed

lemma lexRun_escaped:
  "lexRun (InStr acc) (concat (map escapeChar s)) = Some ([], InStr (acc @ s))"
  by (induction s arbitrary: acc) (simp_all add: lexRun_append lexRun_escapeChar)

lemma lexRun_quote: "lexRun Out (quote s) = Some ([Str s], Out)"
  by (simp add: quote_def lexRun_append lexRun_escaped)

lemma lexRun_presetJSON: "lexRun Out (presetJSON p) = Some (presetTokens p, Out)"
  by (simp add: presetJSON_def newline_def presetTokens_def lexRun_append lexRun_quote)

lemma lexRun_presetsJSON: "lexRun Out (presetsJSON ps) = Some (presetsTokens ps, Out)"
  by (induction ps rule: presetsJSON.induct)
    (simp_all add: newline_def lexRun_append lexRun_presetJSON)

lemma lex_MarshalIndent:
  "json_MarshalIndent c = Inr d \<Longrightarrow>
   lex d = Some (LBrace # Str ''presets'' # Colon # LBracket # presetsTokens (Presets c) @
     [RBracket, RBrace])"
  by (auto simp add: json_MarshalIndent_def lex_def newline_def lexRun_append lexRun_quote
      lexRun_presetsJSON)

lemma parsePreset_presetTokens: "parsePreset (presetTokens p @ r) = Some (p, r)"
  by (simp add: presetTokens_def setField_def)

lemma elements_presetsTokens:
  "ps \<noteq> [] \<Longrightarrow> elements (presetsTokens ps @ RBracket # r) = Some (ps, r)"
proof (induction ps rule: presetsTokens.induct)
  case 1
  then show ?case by simp
next
  case (2 p)
  show ?case
    by (subst elements.simps) (simp add: parsePreset_presetTokens)
next
  case (3 p q ps)
  then have "elements (presetsTokens (q # ps) @ RBracket # r) = Some (q # ps, r)"
    by simp
  then show ?case
    by (subst elements.simps) (simp add: parsePreset_presetTokens)
qed

lemma presetsTokens_not_close: "ps \<noteq> [] \<Longrightarrow> presetsTokens ps @ r \<noteq> RBracket # r'"
  by (cases ps rule: presetsTokens.cases) (simp_all add: presetTokens_def)

lemma json_round_trip:
  assumes "json_MarshalIndent c = Inr d"
  shows "json_Unmarshal d = Inr c"
proof (cases "Presets c = []")
  case True
  then show ?thesis
    using lex_MarshalIndent [OF assms]
    by (simp add: json_Unmarshal_def unmarshalTokens_def)
next
  case False
  then show ?thesis
    using lex_MarshalIndent [OF assms] elements_presetsTokens [OF False, of "[RBrace]"]
      presetsTokens_not_close [OF False, of "[RBracket, RBrace]" "[RBrace]"]
    by (simp add: json_Unmarshal_def unmarshalTokens_def)
qed

lemma json_example:
  "json_MarshalIndent \<lparr>Presets = [\<lparr>Name = ''a<b'', URL = ''u''\<rparr>]\<rparr> =
     Inr (''{'' @ [CHR 0x0A] @
          ''  '' @ [CHR 0x22] @ ''presets'' @ [CHR 0x22] @ '': ['' @ [CHR 0x0A] @
          ''    {'' @ [CHR 0x0A] @
          ''      '' @ [CHR 0x22] @ ''name'' @ [CHR 0x22] @ '': '' @
              [CHR 0x22] @ ''a'' @ [CHR 0x5C] @ ''u003cb'' @ [CHR 0x22] @ '','' @ [CHR 0x0A] @
          ''      '' @ [CHR 0x22] @ ''url'' @ [CHR 0x22] @ '': '' @
              [CHR 0x22] @ ''u'' @ [CHR 0x22] @ [CHR 0x0A] @
          ''    }'' @ [CHR 0x0A] @
          ''  ]'' @ [CHR 0x0A] @
          ''}'')"
  "json_Unmarshal (''{'' @ [CHR 0x22] @ ''presets'' @ [CHR 0x22] @ '':[{'' @
       [CHR 0x22] @ ''url'' @ [CHR 0x22] @ '': '' @ [CHR 0x22] @ ''u'' @ [CHR 0x22] @ '','' @
       [CHR 0x22] @ ''name'' @ [CHR 0x22] @ '':'' @
       [CHR 0x22] @ ''a'' @ [CHR 0x5C] @ ''u003Cb'' @ [CHR 0x22] @ ''}]}'') =
     Inr \<lparr>Presets = [\<lparr>Name = ''a<b'', URL = ''u''\<rparr>]\<rparr>"
  "json_Unmarshal ''{}'' = Inr \<lparr>Presets = []\<rparr>"
  "json_Unmarshal ''{'' = Inl (errorString ''cannot unmarshal'')"
  by code_simp+

subsection \<open>The store\<close>

lemma getConfigDir_files [simp]:
  "getConfigDir L (w\<lparr>files := f\<rparr>) = getConfigDir L w"
  by (simp add: getConfigDir_def Let_def split: sum.splits)

lemma getConfigPath_files [simp]:
  "getConfigPath L (w\<lparr>files := f\<rparr>) = getConfigPath L w"
  by (simp add: getConfigPath_def)

lemma saveConfig_failed:
  "fst (saveConfig L c w) \<noteq> None \<Longrightarrow> snd (saveConfig L c w) = w"
  by (simp add: saveConfig_def split: sum.splits option.splits)

lemma saveConfig_success:
  assumes "getConfigDir L w = Inr dir" and "MkdirAll_error w dir = None"
    and "getConfigPath L w = Inr p" and "MarshalIndent L c = Inr d"
    and "WriteFile_error w p = None"
  shows "saveConfig L c w = (None, w\<lparr>files := (files w)(p := Data d)\<rparr>)"
  using assms by (simp add: saveConfig_def)

lemma saveConfig_written:
  assumes "saveConfig L c w = (None, w1)"
  shows "\<exists>dir p d. getConfigDir L w = Inr dir \<and> MkdirAll_error w dir = None
     \<and> getConfigPath L w = Inr p \<and> MarshalIndent L c = Inr d \<and> WriteFile_error w p = None
     \<and> w1 = w\<lparr>files := (files w)(p := Data d)\<rparr>"
  using assms by (auto simp add: saveConfig_def split: sum.splits option.splits)

lemma load_after_save:
  assumes "saveConfig L c w = (None, w1)"
    and "\<And>d. MarshalIndent L c = Inr d \<Longrightarrow> Unmarshal L d = Inr c"
  shows "loadConfig L w1 = Inr c"
proof -
  obtain p d where "getConfigPath L w = Inr p" "MarshalIndent L c = Inr d"
    "w1 = w\<lparr>files := (files w)(p := Data d)\<rparr>"
    using saveConfig_written [OF assms(1)] by blast
  then show ?thesis
    using assms(2) by (simp add: loadConfig_def)
qed

lemma save_after_save:
  assumes "saveConfig L c w = (None, w1)"
  shows "saveConfig L c w1 = (None, w1)"
proof -
  obtain dir p d where s: "getConfigDir L w = Inr dir" "MkdirAll_error w dir = None"
    "getConfigPath L w = Inr p" "MarshalIndent L c = Inr d" "WriteFile_error w p = None"
    "w1 = w\<lparr>files := (files w)(p := Data d)\<rparr>"
    using saveConfig_written [OF assms] by blast
  then show ?thesis
    by (simp add: saveConfig_def)
qed

subsection \<open>The state machine\<close>

lemma demoModel_simps:
  "Presets (config demoModel) = Presets getDefaultConfig"
  "items (list demoModel) = Presets getDefaultConfig"
  "Index (list demoModel) = 0"
  "state demoModel = mainMenuView"
  by (simp_all add: demoModel_def initialModel_def loadConfig_def getConfigPath_def
      getConfigDir_def demoWorld_def demoLib_def list_New_def Let_def)

lemma trimSpace_demo:
  "TrimSpace demoLib ''  Test '' = ''Test''"
  "TrimSpace demoLib ''https://x/y '' = ''https://x/y''"
  "TrimSpace demoLib ''   '' = []"
  by (simp_all add: demoLib_def trimSpace_def isSpace_def)

lemma getConfigPath_demo:
  "getConfigDir demoLib demoWorld = Inr ''/home/u/.config/lofitui''"
  "getConfigPath demoLib demoWorld = Inr ''/home/u/.config/lofitui/config.json''"
  by (simp_all add: getConfigPath_def getConfigDir_def demoLib_def demoWorld_def)

lemma json_MarshalIndent_Inr: "\<exists>d. json_MarshalIndent c = Inr d"
  by (simp add: json_MarshalIndent_def)

lemma demo_env:
  "MarshalIndent demoLib c = json_MarshalIndent c"
  "Unmarshal demoLib d = json_Unmarshal d"
  "MkdirAll_error demoWorld p = None"
  "WriteFile_error demoWorld p = None"
  "files demoWorld p = NotExist"
  by (simp_all add: demoLib_def demoWorld_def)

lemma saveConfig_demo: "fst (saveConfig demoLib c demoWorld) = None"
proof -
  obtain d where "json_MarshalIndent c = Inr d"
    using json_MarshalIndent_Inr by blast
  then show ?thesis
    by (simp add: saveConfig_def getConfigPath_demo demo_env)
qed

lemma update_KeyMsg:
  "update L (KeyMsg k) m w =
     (case handleKey L k m w of
        Some r \<Rightarrow> r
      | None \<Rightarrow> (fst (updateWidget L (KeyMsg k) m), snd (updateWidget L (KeyMsg k) m), w))"
  by (simp add: update_def split: option.splits prod.splits)

text \<open>
  C2. A failed resolution received in the Loading state sets the state to MainMenu and
  changes nothing else: the configuration, the list with its items and highlighted index
  and every other field of the model are as before, no command is issued, and the
  environment (the disk) is untouched.
\<close>

theorem resolution_failure_returns_to_menu:
  assumes "state m = loadingView"
  shows "update L (streamURLMsg url (Some e)) m w = (m\<lparr>state := mainMenuView\<rparr>, CmdNil, w)
    \<and> state (fst (update L (streamURLMsg url (Some e)) m w)) = mainMenuView
    \<and> config (fst (update L (streamURLMsg url (Some e)) m w)) = config m
    \<and> items (list (fst (update L (streamURLMsg url (Some e)) m w))) = items (list m)
    \<and> Index (list (fst (update L (streamURLMsg url (Some e)) m w))) = Index (list m)
    \<and> snd (snd (update L (streamURLMsg url (Some e)) m w)) = w"
  by (simp add: update_def)

theorem resolution_failure_returns_to_menu_witness:
  "state (demoModel\<lparr>state := loadingView\<rparr>) = loadingView
   \<and> state (fst (update demoLib (streamURLMsg [] (Some (errorString ''exit status 1'')))
        (demoModel\<lparr>state := loadingView\<rparr>) demoWorld)) = mainMenuView
   \<and> config (fst (update demoLib (streamURLMsg [] (Some (errorString ''exit status 1'')))
        (demoModel\<lparr>state := loadingView\<rparr>) demoWorld)) = config demoModel"
  using resolution_failure_returns_to_menu
    [of "demoModel\<lparr>state := loadingView\<rparr>" demoLib "[]" "errorString ''exit status 1''" demoWorld]
  by simp

lemma loadConfig_emptyWorld: "loadConfig demoLib emptyWorld = Inr \<lparr>Presets = []\<rparr>"
proof -
  have "saveConfig demoLib \<lparr>Presets = []\<rparr> demoWorld = (None, emptyWorld)"
    using saveConfig_demo [of "\<lparr>Presets = []\<rparr>"] by (simp add: emptyWorld_def prod_eq_iff)
  then show ?thesis
    by (rule load_after_save) (simp add: demoLib_def json_round_trip)
qed

lemma emptyManageModel_simps:
  "state emptyManageModel = managePresetsView"
  "Presets (config emptyManageModel) = []"
  "items (list emptyManageModel) = []"
  "Index (list emptyManageModel) = 0"
  "selectedIndex emptyManageModel = 0"
  by (simp_all add: emptyManageModel_def update_KeyMsg handleKey_def keyMainMenu_def
      withWorld_def initialModel_def loadConfig_emptyWorld list_New_def Let_def)

lemma loadConfig_saved_demoWorld:
  "loadConfig demoLib (snd (saveConfig demoLib c demoWorld)) = Inr c"
proof -
  have "saveConfig demoLib c demoWorld = (None, snd (saveConfig demoLib c demoWorld))"
    using saveConfig_demo [of c] by (simp add: prod_eq_iff)
  then show ?thesis
    by (rule load_after_save) (simp add: demo_env json_round_trip)
qed

lemma demoModel_config: "config demoModel = getDefaultConfig"
  by (simp add: demoModel_def initialModel_def loadConfig_def getConfigPath_demo demo_env Let_def)

lemma json_files:
  "json_MarshalIndent \<lparr>Presets = []\<rparr> = Inr emptyFile"
  "json_MarshalIndent \<lparr>Presets = [\<lparr>Name = ''Test'', URL = ''https://x/y''\<rparr>]\<rparr> = Inr testFile"
  by code_simp+

lemma saveConfig_demoWorld:
  assumes "json_MarshalIndent c = Inr d"
  shows "saveConfig demoLib c demoWorld =
     (None, demoWorld\<lparr>files := (files demoWorld)(''/home/u/.config/lofitui/config.json'' := Data d)\<rparr>)"
  using assms
  by (intro saveConfig_success [where dir = "''/home/u/.config/lofitui''"])
    (simp_all add: getConfigPath_demo demo_env)

lemma emptyWorld_eq:
  "emptyWorld =
     demoWorld\<lparr>files := (files demoWorld)(''/home/u/.config/lofitui/config.json'' := Data emptyFile)\<rparr>"
  by (simp add: emptyWorld_def saveConfig_demoWorld [OF json_files(1)])

lemma emptyWorld_env:
  "getConfigDir demoLib emptyWorld = Inr ''/home/u/.config/lofitui''"
  "getConfigPath demoLib emptyWorld = Inr ''/home/u/.config/lofitui/config.json''"
  "MkdirAll_error emptyWorld p = None"
  "WriteFile_error emptyWorld p = None"
  "files emptyWorld ''/home/u/.config/lofitui/config.json'' = Data emptyFile"
  by (simp_all add: emptyWorld_eq getConfigPath_demo demo_env)

lemma testAddModel_simps:
  "state testAddModel = addPresetView"
  "Value (nameInput testAddModel) = '' Test''"
  "Value (urlInput testAddModel) = ''https://x/y ''"
  "config testAddModel = \<lparr>Presets = []\<rparr>"
  "Index (list testAddModel) = 0"
  using emptyManageModel_simps(2,4)
  by (simp_all add: testAddModel_def SetValue_def)

lemma trimSpace_test:
  "TrimSpace demoLib '' Test'' = ''Test''"
  "TrimSpace demoLib ''https://x/y '' = ''https://x/y''"
  by (simp_all add: demoLib_def trimSpace_def isSpace_def)

text \<open>
  C1. In the AddPreset state the confirm key, when the trimmed name and the trimmed URL are
  both non-empty, appends the entry of the two trimmed texts at the end of the presets,
  calls \<open>saveConfig\<close> on the new configuration, sets the items of the list to the new
  presets and goes to ManagePresets. The configuration is persisted: when the directory can
  be made, the new configuration encoded and the file written, the environment afterwards
  differs from the one before in the configuration file only, which holds the encoding of
  the new configuration. When one of the two trimmed texts is empty, the model and the
  environment stay as they are.
\<close>

theorem add_preset_confirm:
  assumes "state m = addPresetView"
  shows "(TrimSpace L (Value (nameInput m)) \<noteq> [] \<and> TrimSpace L (Value (urlInput m)) \<noteq> [] \<longrightarrow>
           update L (KeyMsg ''enter'') m w =
             (m\<lparr>config := (config m)\<lparr>Presets := Presets (config m) @
                   [\<lparr>Name = TrimSpace L (Value (nameInput m)),
                     URL = TrimSpace L (Value (urlInput m))\<rparr>]\<rparr>,
                 list := SetItems (Presets (config m) @
                   [\<lparr>Name = TrimSpace L (Value (nameInput m)),
                     URL = TrimSpace L (Value (urlInput m))\<rparr>]) (list m),
                 state := managePresetsView\<rparr>,
              CmdNil,
              snd (saveConfig L ((config m)\<lparr>Presets := Presets (config m) @
                   [\<lparr>Name = TrimSpace L (Value (nameInput m)),
                     URL = TrimSpace L (Value (urlInput m))\<rparr>]\<rparr>) w))
           \<and> (\<forall>dir p d.
                 getConfigDir L w = Inr dir \<and> MkdirAll_error w dir = None
                 \<and> getConfigPath L w = Inr p
                 \<and> MarshalIndent L ((config m)\<lparr>Presets := Presets (config m) @
                      [\<lparr>Name = TrimSpace L (Value (nameInput m)),
                        URL = TrimSpace L (Value (urlInput m))\<rparr>]\<rparr>) = Inr d
                 \<and> WriteFile_error w p = None \<longrightarrow>
                 snd (snd (update L (KeyMsg ''enter'') m w)) = w\<lparr>files := (files w)(p := Data d)\<rparr>
                 \<and> files (snd (snd (update L (KeyMsg ''enter'') m w))) p = Data d))
       \<and> (TrimSpace L (Value (nameInput m)) = [] \<or> TrimSpace L (Value (urlInput m)) = [] \<longrightarrow>
           update L (KeyMsg ''enter'') m w = (m, CmdNil, w))"
proof -
  let ?c = "(config m)\<lparr>Presets := Presets (config m) @
      [\<lparr>Name = TrimSpace L (Value (nameInput m)), URL = TrimSpace L (Value (urlInput m))\<rparr>]\<rparr>"
  have accepted: "update L (KeyMsg ''enter'') m w =
      (m\<lparr>config := ?c,
          list := SetItems (Presets (config m) @
            [\<lparr>Name = TrimSpace L (Value (nameInput m)),
              URL = TrimSpace L (Value (urlInput m))\<rparr>]) (list m),
          state := managePresetsView\<rparr>,
       CmdNil, snd (saveConfig L ?c w))"
    if "TrimSpace L (Value (nameInput m)) \<noteq> []" "TrimSpace L (Value (urlInput m)) \<noteq> []"
    using that assms
    by (simp add: update_KeyMsg handleKey_def keyAddPreset_def refreshList_def Let_def)
  have rejected: "update L (KeyMsg ''enter'') m w = (m, CmdNil, w)"
    if "TrimSpace L (Value (nameInput m)) = [] \<or> TrimSpace L (Value (urlInput m)) = []"
    using that assms
    by (auto simp add: update_KeyMsg handleKey_def keyAddPreset_def)
  have written: "snd (saveConfig L ?c w) = w\<lparr>files := (files w)(p := Data d)\<rparr>
      \<and> files (snd (saveConfig L ?c w)) p = Data d"
    if "getConfigDir L w = Inr dir" "MkdirAll_error w dir = None" "getConfigPath L w = Inr p"
      "MarshalIndent L ?c = Inr d" "WriteFile_error w p = None" for dir p d
    using that by (simp add: saveConfig_def)
  show ?thesis
  proof (intro conjI impI allI)
    assume "TrimSpace L (Value (nameInput m)) \<noteq> [] \<and> TrimSpace L (Value (urlInput m)) \<noteq> []"
    then show "update L (KeyMsg ''enter'') m w =
      (m\<lparr>config := ?c,
          list := SetItems (Presets (config m) @
            [\<lparr>Name = TrimSpace L (Value (nameInput m)),
              URL = TrimSpace L (Value (urlInput m))\<rparr>]) (list m),
          state := managePresetsView\<rparr>,
       CmdNil, snd (saveConfig L ?c w))"
      using accepted by blast
  next
    fix dir p d
    assume t: "TrimSpace L (Value (nameInput m)) \<noteq> [] \<and> TrimSpace L (Value (urlInput m)) \<noteq> []"
      and s: "getConfigDir L w = Inr dir \<and> MkdirAll_error w dir = None
        \<and> getConfigPath L w = Inr p \<and> MarshalIndent L ?c = Inr d \<and> WriteFile_error w p = None"
    have e: "snd (snd (update L (KeyMsg ''enter'') m w)) = snd (saveConfig L ?c w)"
      using accepted t by simp
    show "snd (snd (update L (KeyMsg ''enter'') m w)) = w\<lparr>files := (files w)(p := Data d)\<rparr>"
      using written [of dir p d] s e by simp
    show "files (snd (snd (update L (KeyMsg ''enter'') m w))) p = Data d"
      using written [of dir p d] s e by simp
  next
    assume "TrimSpace L (Value (nameInput m)) = [] \<or> TrimSpace L (Value (urlInput m)) = []"
    then show "update L (KeyMsg ''enter'') m w = (m, CmdNil, w)"
      using rejected by blast
  qed
qed

theorem add_preset_confirm_witness:
  "state (addModel ''  Test '' ''https://x/y '') = addPresetView
   \<and> Presets (config (fst (update demoLib (KeyMsg ''enter'')
         (addModel ''  Test '' ''https://x/y '') demoWorld))) =
       Presets getDefaultConfig @ [\<lparr>Name = ''Test'', URL = ''https://x/y''\<rparr>]
   \<and> state (fst (update demoLib (KeyMsg ''enter'')
         (addModel ''  Test '' ''https://x/y '') demoWorld)) = managePresetsView
   \<and> files (snd (snd (update demoLib (KeyMsg ''enter'')
         (addModel ''  Test '' ''https://x/y '') demoWorld))) ''/home/u/.config/lofitui/config.json''
       \<noteq> NotExist
   \<and> loadConfig demoLib (snd (snd (update demoLib (KeyMsg ''enter'')
         (addModel ''  Test '' ''https://x/y '') demoWorld))) =
       Inr \<lparr>Presets = Presets getDefaultConfig @ [\<lparr>Name = ''Test'', URL = ''https://x/y''\<rparr>]\<rparr>
   \<and> state (addModel ''   '' ''https://x/y '') = addPresetView
   \<and> update demoLib (KeyMsg ''enter'') (addModel ''   '' ''https://x/y '') demoWorld =
       (addModel ''   '' ''https://x/y '', CmdNil, demoWorld)
   \<and> state testAddModel = addPresetView
   \<and> files emptyWorld ''/home/u/.config/lofitui/config.json'' = Data emptyFile
   \<and> Presets (config (fst (update demoLib (KeyMsg ''enter'') testAddModel emptyWorld))) =
       [\<lparr>Name = ''Test'', URL = ''https://x/y''\<rparr>]
   \<and> files (snd (snd (update demoLib (KeyMsg ''enter'') testAddModel emptyWorld)))
         ''/home/u/.config/lofitui/config.json'' = Data testFile"
proof -
  let ?P = "''/home/u/.config/lofitui/config.json''"
  have n: "Value (nameInput (addModel a b)) = a" "Value (urlInput (addModel a b)) = b"
    "state (addModel a b) = addPresetView" "config (addModel a b) = getDefaultConfig" for a b
    by (simp_all add: addModel_def SetValue_def demoModel_config)
  have f: "files (snd (saveConfig demoLib c demoWorld)) ?P \<noteq> NotExist" for c
  proof -
    obtain d where "json_MarshalIndent c = Inr d"
      using json_MarshalIndent_Inr by blast
    then show ?thesis
      by (simp add: saveConfig_def getConfigPath_demo demo_env)
  qed
  have g: "getDefaultConfig\<lparr>Presets := ps\<rparr> = \<lparr>Presets = ps\<rparr>" for ps
    by simp
  have first: "state (addModel ''  Test '' ''https://x/y '') = addPresetView
   \<and> Presets (config (fst (update demoLib (KeyMsg ''enter'')
         (addModel ''  Test '' ''https://x/y '') demoWorld))) =
       Presets getDefaultConfig @ [\<lparr>Name = ''Test'', URL = ''https://x/y''\<rparr>]
   \<and> state (fst (update demoLib (KeyMsg ''enter'')
         (addModel ''  Test '' ''https://x/y '') demoWorld)) = managePresetsView
   \<and> files (snd (snd (update demoLib (KeyMsg ''enter'')
         (addModel ''  Test '' ''https://x/y '') demoWorld))) ?P \<noteq> NotExist
   \<and> loadConfig demoLib (snd (snd (update demoLib (KeyMsg ''enter'')
         (addModel ''  Test '' ''https://x/y '') demoWorld))) =
       Inr \<lparr>Presets = Presets getDefaultConfig @ [\<lparr>Name = ''Test'', URL = ''https://x/y''\<rparr>]\<rparr>
   \<and> state (addModel ''   '' ''https://x/y '') = addPresetView
   \<and> update demoLib (KeyMsg ''enter'') (addModel ''   '' ''https://x/y '') demoWorld =
       (addModel ''   '' ''https://x/y '', CmdNil, demoWorld)"
    using add_preset_confirm [of "addModel ''  Test '' ''https://x/y ''" demoLib demoWorld]
      add_preset_confirm [of "addModel ''   '' ''https://x/y ''" demoLib demoWorld]
    by (simp add: n trimSpace_demo f g loadConfig_saved_demoWorld)
  have t: "TrimSpace demoLib (Value (nameInput testAddModel)) \<noteq> []
      \<and> TrimSpace demoLib (Value (urlInput testAddModel)) \<noteq> []"
    by (simp add: testAddModel_simps trimSpace_test)
  have e: "getConfigDir demoLib emptyWorld = Inr ''/home/u/.config/lofitui''
      \<and> MkdirAll_error emptyWorld ''/home/u/.config/lofitui'' = None
      \<and> getConfigPath demoLib emptyWorld = Inr ?P
      \<and> MarshalIndent demoLib ((config testAddModel)\<lparr>Presets := Presets (config testAddModel) @
           [\<lparr>Name = TrimSpace demoLib (Value (nameInput testAddModel)),
             URL = TrimSpace demoLib (Value (urlInput testAddModel))\<rparr>]\<rparr>) = Inr testFile
      \<and> WriteFile_error emptyWorld ?P = None"
    by (simp add: emptyWorld_env testAddModel_simps trimSpace_test demo_env json_files)
  have sv: "files (snd (saveConfig demoLib \<lparr>Presets = [\<lparr>Name = ''Test'', URL = ''https://x/y''\<rparr>]\<rparr>
      emptyWorld)) ?P = Data testFile"
    by (simp add: saveConfig_def emptyWorld_env demo_env json_files)
  have fl: "files (snd (snd (update demoLib (KeyMsg ''enter'') testAddModel emptyWorld))) ?P =
      Data testFile"
    using add_preset_confirm [of testAddModel demoLib emptyWorld] testAddModel_simps(1) t e
    by blast
  have same: "snd (snd (update demoLib (KeyMsg ''enter'') testAddModel emptyWorld)) =
      snd (saveConfig demoLib \<lparr>Presets = [\<lparr>Name = ''Test'', URL = ''https://x/y''\<rparr>]\<rparr> emptyWorld)"
    using add_preset_confirm [of testAddModel demoLib emptyWorld] t
    by (simp add: testAddModel_simps trimSpace_test)
  have cfg: "Presets (config (fst (update demoLib (KeyMsg ''enter'') testAddModel emptyWorld))) =
      [\<lparr>Name = ''Test'', URL = ''https://x/y''\<rparr>]"
    using add_preset_confirm [of testAddModel demoLib emptyWorld] t
    by (simp add: testAddModel_simps trimSpace_test)
  show ?thesis
    using first fl cfg sv same by (simp add: testAddModel_simps emptyWorld_env)
qed

text \<open>
  C10. In the CustomURLEntry state the confirm key takes the text of the input as it is,
  without trimming: every non-empty text, one made of blanks only included, leads to
  Loading with the resolver started on exactly that text and with the input emptied. The
  cancel keys lead to MainMenu and empty the input as well.
\<close>

theorem custom_url_confirm_verbatim:
  assumes "state m = customURLView"
  shows "(Value (textInput m) \<noteq> [] \<longrightarrow>
           update L (KeyMsg ''enter'') m w =
             (m\<lparr>state := loadingView, loadingTitle := ''Custom Stream'',
                 textInput := (textInput m)\<lparr>Value := []\<rparr>\<rparr>,
              Batch [Tick, extractStreamURL (Value (textInput m))], w))
       \<and> (k = ''ctrl+c'' \<or> k = ''esc'' \<longrightarrow>
           update L (KeyMsg k) m w =
             (m\<lparr>state := mainMenuView, textInput := (textInput m)\<lparr>Value := []\<rparr>\<rparr>, CmdNil, w))"
  using assms
  by (auto simp add: update_KeyMsg handleKey_def keyCustomURL_def withWorld_def SetValue_def
      Let_def)

theorem custom_url_confirm_verbatim_witness:
  "state (customModel ''   '') = customURLView
   \<and> Value (textInput (customModel ''   '')) \<noteq> []
   \<and> fst (snd (update demoLib (KeyMsg ''enter'') (customModel ''   '') demoWorld)) =
       Batch [Tick, extractStreamURL ''   '']
   \<and> state (fst (update demoLib (KeyMsg ''enter'') (customModel ''   '') demoWorld)) = loadingView
   \<and> Value (textInput (fst (update demoLib (KeyMsg ''enter'') (customModel ''   '') demoWorld))) = []
   \<and> state (fst (update demoLib (KeyMsg ''esc'') (customModel ''   '') demoWorld)) = mainMenuView
   \<and> Value (textInput (fst (update demoLib (KeyMsg ''esc'') (customModel ''   '') demoWorld))) = []"
proof -
  have c: "state (customModel u) = customURLView" "Value (textInput (customModel u)) = u" for u
    by (simp_all add: customModel_def SetValue_def Focus_def)
  show ?thesis
    using custom_url_confirm_verbatim [of "customModel ''   ''" demoLib demoWorld "''esc''"]
    by (simp add: c)
qed

text \<open>
  C7. In the Loading state a key only reaches the spinner: the state, the configuration,
  every field of the model other than the spinner and the environment stay as they are.
  Whatever the message, the state after it differs from Loading only when the message is a
  failed resolution result or the end of the playback.
\<close>

theorem loading_not_interruptible:
  assumes "state m = loadingView"
  shows "update L (KeyMsg k) m w =
           (m\<lparr>spinner := fst (spinner_Update L (KeyMsg k) (spinner m))\<rparr>,
            snd (spinner_Update L (KeyMsg k) (spinner m)), w)
       \<and> state (fst (update L (KeyMsg k) m w)) = loadingView
       \<and> config (fst (update L (KeyMsg k) m w)) = config m
       \<and> (state (fst (update L ms m w)) \<noteq> loadingView \<longrightarrow>
            (\<exists>url e. ms = streamURLMsg url (Some e)) \<or> ms = streamEndedMsg)"
proof -
  have key: "update L (KeyMsg k) m w =
           (m\<lparr>spinner := fst (spinner_Update L (KeyMsg k) (spinner m))\<rparr>,
            snd (spinner_Update L (KeyMsg k) (spinner m)), w)" for k
    using assms
    by (simp add: update_KeyMsg handleKey_def updateWidget_def split: prod.splits)
  have other: "state (fst (update L ms m w)) \<noteq> loadingView \<Longrightarrow>
      (\<exists>url e. ms = streamURLMsg url (Some e)) \<or> ms = streamEndedMsg"
  proof (cases ms)
    case (streamURLMsg url err)
    assume "state (fst (update L ms m w)) \<noteq> loadingView"
    with streamURLMsg assms show ?thesis
      by (cases err) (simp_all add: update_def)
  next
    case streamEndedMsg
    then show ?thesis by simp
  next
    case (WindowSizeMsg a b)
    assume "state (fst (update L ms m w)) \<noteq> loadingView"
    with WindowSizeMsg assms show ?thesis
      by (simp add: update_def Let_def)
  next
    case (KeyMsg k')
    assume "state (fst (update L ms m w)) \<noteq> loadingView"
    with KeyMsg assms key [of k'] show ?thesis by simp
  next
    case (OtherMsg n)
    assume "state (fst (update L ms m w)) \<noteq> loadingView"
    with OtherMsg assms show ?thesis
      by (auto simp add: update_def updateWidget_def split: prod.splits)
  qed
  show ?thesis using key [of k] assms other by simp
qed

theorem loading_not_interruptible_witness:
  "state (demoModel\<lparr>state := loadingView\<rparr>) = loadingView
   \<and> update demoLib (KeyMsg ''ctrl+c'') (demoModel\<lparr>state := loadingView\<rparr>) demoWorld =
       (demoModel\<lparr>state := loadingView\<rparr>, CmdNil, demoWorld)
   \<and> state (fst (update demoLib streamEndedMsg (demoModel\<lparr>state := loadingView\<rparr>) demoWorld))
       \<noteq> loadingView"
proof -
  have s: "spinner_Update demoLib ms x = (x, CmdNil)" for ms x
    by (simp add: demoLib_def)
  have e: "state (fst (update demoLib streamEndedMsg (demoModel\<lparr>state := loadingView\<rparr>)
      demoWorld)) = mainMenuView"
    by (simp add: update_def)
  show ?thesis
    using loading_not_interruptible
      [of "demoModel\<lparr>state := loadingView\<rparr>" demoLib "''ctrl+c''" demoWorld streamEndedMsg]
    by (simp add: s e)
qed

lemma update_enter_testAddModel:
  "update demoLib (KeyMsg ''enter'') testAddModel emptyWorld =
     (testAddModel\<lparr>config := \<lparr>Presets = [\<lparr>Name = ''Test'', URL = ''https://x/y''\<rparr>]\<rparr>,
        list := SetItems [\<lparr>Name = ''Test'', URL = ''https://x/y''\<rparr>] (list testAddModel),
        state := managePresetsView\<rparr>,
      CmdNil,
      emptyWorld\<lparr>files := (files emptyWorld)(''/home/u/.config/lofitui/config.json'' := Data testFile)\<rparr>)"
proof -
  have "saveConfig demoLib \<lparr>Presets = [\<lparr>Name = ''Test'', URL = ''https://x/y''\<rparr>]\<rparr> emptyWorld =
      (None, emptyWorld\<lparr>files := (files emptyWorld)
        (''/home/u/.config/lofitui/config.json'' := Data testFile)\<rparr>)"
    by (intro saveConfig_success [where dir = "''/home/u/.config/lofitui''"])
      (simp_all add: emptyWorld_env demo_env json_files)
  then show ?thesis
    by (simp add: update_KeyMsg handleKey_def keyAddPreset_def refreshList_def Let_def
        testAddModel_simps trimSpace_test)
qed

lemma testModel_simps:
  "state testModel = managePresetsView"
  "config testModel = \<lparr>Presets = [\<lparr>Name = ''Test'', URL = ''https://x/y''\<rparr>]\<rparr>"
  "items (list testModel) = [\<lparr>Name = ''Test'', URL = ''https://x/y''\<rparr>]"
  "Index (list testModel) = 0"
  by (simp_all add: testModel_def update_enter_testAddModel SetItems_def testAddModel_simps)

lemma testWorld_env:
  "getConfigDir demoLib testWorld = Inr ''/home/u/.config/lofitui''"
  "getConfigPath demoLib testWorld = Inr ''/home/u/.config/lofitui/config.json''"
  "MkdirAll_error testWorld p = None"
  "WriteFile_error testWorld p = None"
  "files testWorld ''/home/u/.config/lofitui/config.json'' = Data testFile"
  by (simp_all add: testWorld_def update_enter_testAddModel emptyWorld_env)

lemma testDeleteModel_simps:
  "state testDeleteModel = deleteConfirmView"
  "selectedIndex testDeleteModel = 0"
  "config testDeleteModel = \<lparr>Presets = [\<lparr>Name = ''Test'', URL = ''https://x/y''\<rparr>]\<rparr>"
  by (simp_all add: testDeleteModel_def update_KeyMsg handleKey_def keyManagePresets_def
      withWorld_def testModel_simps)

text \<open>
  C4. In the DeleteConfirm state the yes key removes the entry at the remembered index
  exactly when that index is below the number of entries: the entries before it keep their
  position, every entry after it moves down by one, \<open>saveConfig\<close> is called on the new
  configuration and the items of the list are set to the new presets. The configuration is
  persisted: when the directory can be made, the new configuration encoded and the file
  written, the environment afterwards differs from the one before in the configuration
  file only, which holds the encoding of the new configuration. With an index that is not
  valid nothing is removed and nothing is saved. The state becomes ManagePresets in both
  cases. The no keys and the cancel key lead to ManagePresets and change nothing else.
\<close>

theorem delete_confirm:
  assumes "state m = deleteConfirmView"
  shows "let ps = Presets (config m); i = selectedIndex m; ps' = take i ps @ drop (Suc i) ps in
     ((k = ''y'' \<or> k = ''Y'') \<and> i < length ps \<longrightarrow>
        update L (KeyMsg k) m w =
          (m\<lparr>config := (config m)\<lparr>Presets := ps'\<rparr>, list := SetItems ps' (list m),
              state := managePresetsView\<rparr>,
           CmdNil, snd (saveConfig L ((config m)\<lparr>Presets := ps'\<rparr>) w))
        \<and> length ps' = length ps - 1
        \<and> (\<forall>j. j < i \<longrightarrow> ps' ! j = ps ! j)
        \<and> (\<forall>j. i \<le> j \<and> j < length ps - 1 \<longrightarrow> ps' ! j = ps ! Suc j)
        \<and> (\<forall>dir p d.
              getConfigDir L w = Inr dir \<and> MkdirAll_error w dir = None
              \<and> getConfigPath L w = Inr p
              \<and> MarshalIndent L ((config m)\<lparr>Presets := ps'\<rparr>) = Inr d
              \<and> WriteFile_error w p = None \<longrightarrow>
              snd (snd (update L (KeyMsg k) m w)) = w\<lparr>files := (files w)(p := Data d)\<rparr>
              \<and> files (snd (snd (update L (KeyMsg k) m w))) p = Data d))
   \<and> ((k = ''y'' \<or> k = ''Y'') \<and> \<not> i < length ps \<longrightarrow>
        update L (KeyMsg k) m w = (m\<lparr>state := managePresetsView\<rparr>, CmdNil, w))
   \<and> (k = ''n'' \<or> k = ''N'' \<or> k = ''esc'' \<longrightarrow>
        update L (KeyMsg k) m w = (m\<lparr>state := managePresetsView\<rparr>, CmdNil, w))"
proof -
  let ?ps' = "take (selectedIndex m) (Presets (config m)) @
      drop (Suc (selectedIndex m)) (Presets (config m))"
  have shift: "length (take i ps @ drop (Suc i) ps) = length ps - 1
      \<and> (\<forall>j. j < i \<longrightarrow> (take i ps @ drop (Suc i) ps) ! j = ps ! j)
      \<and> (\<forall>j. i \<le> j \<and> j < length ps - 1 \<longrightarrow> (take i ps @ drop (Suc i) ps) ! j = ps ! Suc j)"
    if "i < length ps" for i and ps :: "Preset list"
    using that by (auto simp add: nth_append min_def)
  have yes: "update L (KeyMsg k) m w =
      (m\<lparr>config := (config m)\<lparr>Presets := ?ps'\<rparr>, list := SetItems ?ps' (list m),
          state := managePresetsView\<rparr>,
       CmdNil, snd (saveConfig L ((config m)\<lparr>Presets := ?ps'\<rparr>) w))"
    if "k = ''y'' \<or> k = ''Y''" "selectedIndex m < length (Presets (config m))"
    using that assms
    by (auto simp add: update_KeyMsg handleKey_def keyDeleteConfirm_def refreshList_def Let_def)
  have written: "snd (snd (update L (KeyMsg k) m w)) = w\<lparr>files := (files w)(p := Data d)\<rparr>
      \<and> files (snd (snd (update L (KeyMsg k) m w))) p = Data d"
    if "k = ''y'' \<or> k = ''Y''" "selectedIndex m < length (Presets (config m))"
      and s: "getConfigDir L w = Inr dir" "MkdirAll_error w dir = None"
      "getConfigPath L w = Inr p" "MarshalIndent L ((config m)\<lparr>Presets := ?ps'\<rparr>) = Inr d"
      "WriteFile_error w p = None" for dir p d
    using yes [OF that(1,2)] s by (simp add: saveConfig_def)
  have invalid: "update L (KeyMsg k) m w = (m\<lparr>state := managePresetsView\<rparr>, CmdNil, w)"
    if "k = ''y'' \<or> k = ''Y''" "\<not> selectedIndex m < length (Presets (config m))"
    using that assms
    by (auto simp add: update_KeyMsg handleKey_def keyDeleteConfirm_def)
  have no: "update L (KeyMsg k) m w = (m\<lparr>state := managePresetsView\<rparr>, CmdNil, w)"
    if "k = ''n'' \<or> k = ''N'' \<or> k = ''esc''"
    using that assms
    by (auto simp add: update_KeyMsg handleKey_def keyDeleteConfirm_def)
  show ?thesis
    unfolding Let_def using yes invalid no shift written by blast
qed

lemma deleteModel_simps:
  "state (deleteModel i) = deleteConfirmView"
  "selectedIndex (deleteModel i) = i"
  "Index (list (deleteModel i)) = i"
  "config (deleteModel i) = config demoModel"
  by (simp_all add: deleteModel_def)

theorem delete_confirm_witness:
  "state (deleteModel 2) = deleteConfirmView
   \<and> selectedIndex (deleteModel 2) < length (Presets (config (deleteModel 2)))
   \<and> map Name (Presets (config (fst (update demoLib (KeyMsg ''y'') (deleteModel 2) demoWorld)))) =
       [''Lofi Girl - Study'', ''Lofi Girl - Sleep'', ''Synthwave Radio'', ''Chillhop Music'',
        ''The Bootleg Boy'', ''Dreamhop Music'', ''Lofi Geek'', ''STEEZYASFUCK'',
        ''Homework Radio'']
   \<and> state (fst (update demoLib (KeyMsg ''y'') (deleteModel 2) demoWorld)) = managePresetsView
   \<and> \<not> selectedIndex (deleteModel 10) < length (Presets (config (deleteModel 10)))
   \<and> update demoLib (KeyMsg ''Y'') (deleteModel 10) demoWorld =
       ((deleteModel 10)\<lparr>state := managePresetsView\<rparr>, CmdNil, demoWorld)
   \<and> update demoLib (KeyMsg ''esc'') (deleteModel 2) demoWorld =
       ((deleteModel 2)\<lparr>state := managePresetsView\<rparr>, CmdNil, demoWorld)
   \<and> loadConfig demoLib (snd (snd (update demoLib (KeyMsg ''y'') (deleteModel 2) demoWorld))) =
       Inr (config (fst (update demoLib (KeyMsg ''y'') (deleteModel 2) demoWorld)))
   \<and> length (Presets (config (fst (update demoLib (KeyMsg ''y'') (deleteModel 2) demoWorld)))) = 9
   \<and> state testDeleteModel = deleteConfirmView
   \<and> selectedIndex testDeleteModel < length (Presets (config testDeleteModel))
   \<and> files testWorld ''/home/u/.config/lofitui/config.json'' = Data testFile
   \<and> Presets (config (fst (update demoLib (KeyMsg ''y'') testDeleteModel testWorld))) = []
   \<and> files (snd (snd (update demoLib (KeyMsg ''y'') testDeleteModel testWorld)))
         ''/home/u/.config/lofitui/config.json'' = Data emptyFile"
proof -
  let ?P = "''/home/u/.config/lofitui/config.json''"
  have first: "state (deleteModel 2) = deleteConfirmView
   \<and> selectedIndex (deleteModel 2) < length (Presets (config (deleteModel 2)))
   \<and> map Name (Presets (config (fst (update demoLib (KeyMsg ''y'') (deleteModel 2) demoWorld)))) =
       [''Lofi Girl - Study'', ''Lofi Girl - Sleep'', ''Synthwave Radio'', ''Chillhop Music'',
        ''The Bootleg Boy'', ''Dreamhop Music'', ''Lofi Geek'', ''STEEZYASFUCK'',
        ''Homework Radio'']
   \<and> state (fst (update demoLib (KeyMsg ''y'') (deleteModel 2) demoWorld)) = managePresetsView
   \<and> \<not> selectedIndex (deleteModel 10) < length (Presets (config (deleteModel 10)))
   \<and> update demoLib (KeyMsg ''Y'') (deleteModel 10) demoWorld =
       ((deleteModel 10)\<lparr>state := managePresetsView\<rparr>, CmdNil, demoWorld)
   \<and> update demoLib (KeyMsg ''esc'') (deleteModel 2) demoWorld =
       ((deleteModel 2)\<lparr>state := managePresetsView\<rparr>, CmdNil, demoWorld)
   \<and> loadConfig demoLib (snd (snd (update demoLib (KeyMsg ''y'') (deleteModel 2) demoWorld))) =
       Inr (config (fst (update demoLib (KeyMsg ''y'') (deleteModel 2) demoWorld)))
   \<and> length (Presets (config (fst (update demoLib (KeyMsg ''y'') (deleteModel 2) demoWorld)))) = 9"
    using delete_confirm [of "deleteModel 2" "''y''" demoLib demoWorld]
      delete_confirm [of "deleteModel 10" "''Y''" demoLib demoWorld]
      delete_confirm [of "deleteModel 2" "''esc''" demoLib demoWorld]
    by (simp add: deleteModel_simps demoModel_simps getDefaultConfig_def Let_def
        loadConfig_saved_demoWorld)
  have i: "(''y'' = ''y'' \<or> ''y'' = ''Y'')
      \<and> selectedIndex testDeleteModel < length (Presets (config testDeleteModel))"
    by (simp add: testDeleteModel_simps)
  have e: "getConfigDir demoLib testWorld = Inr ''/home/u/.config/lofitui''
      \<and> MkdirAll_error testWorld ''/home/u/.config/lofitui'' = None
      \<and> getConfigPath demoLib testWorld = Inr ?P
      \<and> MarshalIndent demoLib ((config testDeleteModel)\<lparr>Presets :=
           take (selectedIndex testDeleteModel) (Presets (config testDeleteModel)) @
           drop (Suc (selectedIndex testDeleteModel)) (Presets (config testDeleteModel))\<rparr>) =
         Inr emptyFile
      \<and> WriteFile_error testWorld ?P = None"
    by (simp add: testWorld_env testDeleteModel_simps demo_env json_files)
  have sv: "files (snd (saveConfig demoLib \<lparr>Presets = []\<rparr> testWorld)) ?P = Data emptyFile"
    by (simp add: saveConfig_def testWorld_env demo_env json_files)
  have same: "snd (snd (update demoLib (KeyMsg ''y'') testDeleteModel testWorld)) =
      snd (saveConfig demoLib \<lparr>Presets = []\<rparr> testWorld)"
    using delete_confirm [of testDeleteModel "''y''" demoLib testWorld]
    by (simp add: testDeleteModel_simps Let_def)
  have fl: "files (snd (snd (update demoLib (KeyMsg ''y'') testDeleteModel testWorld))) ?P =
      Data emptyFile"
    using delete_confirm [of testDeleteModel "''y''" demoLib testWorld, unfolded Let_def]
      testDeleteModel_simps(1) i e
    by blast
  have cfg: "Presets (config (fst (update demoLib (KeyMsg ''y'') testDeleteModel testWorld))) = []"
    using delete_confirm [of testDeleteModel "''y''" demoLib testWorld]
    by (simp add: testDeleteModel_simps Let_def)
  show ?thesis
    using first fl cfg sv same by (simp add: testDeleteModel_simps testWorld_env)
qed

text \<open>
  C6, as the specification states it, fails: with no entry selected (the list is empty) the
  delete key is not a no-op, the state becomes DeleteConfirm.
\<close>

theorem delete_key_without_selection_counterexample:
  "state emptyManageModel = managePresetsView
   \<and> SelectedItem (list emptyManageModel) = None
   \<and> state (fst (update demoLib (KeyMsg ''d'') emptyManageModel emptyWorld)) \<noteq> managePresetsView"
  by (simp add: emptyManageModel_simps SelectedItem_def update_KeyMsg handleKey_def
      keyManagePresets_def withWorld_def)

text \<open>
  C6, amended. In the ManagePresets state the delete key (\<open>d\<close> or \<open>x\<close>) leads to
  DeleteConfirm and remembers the index of the list's highlight, whether or not an entry
  is selected; nothing else changes and nothing is saved. When no entry is selected, the
  remembered index is not the index of an item of the list.
\<close>

theorem delete_key_opens_confirm:
  assumes "state m = managePresetsView" and "k = ''d'' \<or> k = ''x''"
  shows "update L (KeyMsg k) m w =
           (m\<lparr>state := deleteConfirmView, selectedIndex := Index (list m)\<rparr>, CmdNil, w)
       \<and> (SelectedItem (list m) = None \<longrightarrow>
            \<not> selectedIndex (fst (update L (KeyMsg k) m w)) < length (items (list m)))"
  using assms
  by (auto simp add: update_KeyMsg handleKey_def keyManagePresets_def withWorld_def
      SelectedItem_def split: if_splits)

theorem delete_key_opens_confirm_witness:
  "state (manageModel 2) = managePresetsView
   \<and> (''x'' = ''d'' \<or> ''x'' = ''x'')
   \<and> SelectedItem (list (manageModel 2)) \<noteq> None
   \<and> state (fst (update demoLib (KeyMsg ''x'') (manageModel 2) demoWorld)) = deleteConfirmView
   \<and> selectedIndex (fst (update demoLib (KeyMsg ''x'') (manageModel 2) demoWorld)) = 2
   \<and> state emptyManageModel = managePresetsView
   \<and> SelectedItem (list emptyManageModel) = None
   \<and> state (fst (update demoLib (KeyMsg ''d'') emptyManageModel emptyWorld)) = deleteConfirmView
   \<and> selectedIndex (fst (update demoLib (KeyMsg ''d'') emptyManageModel emptyWorld)) = 0
   \<and> length (items (list emptyManageModel)) = 0"
proof -
  have m: "state (manageModel i) = managePresetsView" "Index (list (manageModel i)) = i"
    "items (list (manageModel i)) = Presets getDefaultConfig" for i
    by (simp_all add: manageModel_def demoModel_simps)
  show ?thesis
    using delete_key_opens_confirm [of "manageModel 2" "''x''" demoLib demoWorld]
      delete_key_opens_confirm [of emptyManageModel "''d''" demoLib emptyWorld]
    by (simp add: m emptyManageModel_simps SelectedItem_def getDefaultConfig_def)
qed

lemma update_mutation:
  assumes "mutation L k m = Some c"
  shows "update L (KeyMsg k) m w =
           ((refreshList (m\<lparr>config := c\<rparr>))\<lparr>state := managePresetsView\<rparr>, CmdNil,
            snd (saveConfig L c w))"
proof (cases "state m")
  case addPresetView
  with assms show ?thesis
    by (auto simp add: mutation_def update_KeyMsg handleKey_def keyAddPreset_def Let_def
        split: if_splits)
next
  case editPresetView
  with assms show ?thesis
    by (auto simp add: mutation_def update_KeyMsg handleKey_def keyEditPreset_def Let_def
        split: if_splits)
next
  case deleteConfirmView
  with assms show ?thesis
    by (auto simp add: mutation_def update_KeyMsg handleKey_def keyDeleteConfirm_def Let_def
        split: if_splits)
next
  case restoreDefaultsConfirmView
  with assms show ?thesis
    by (auto simp add: mutation_def update_KeyMsg handleKey_def keyRestoreDefaultsConfirm_def
        Let_def split: if_splits)
qed (use assms in \<open>simp_all add: mutation_def Let_def\<close>)

text \<open>
  C9. Each of the four operations that change the configuration (an accepted add, an
  accepted edit, a delete with a valid index, a restore of the defaults) yields the same
  model and the same command in every environment: the new configuration is in the model,
  the items of the list are set from it, the state is ManagePresets and the command is
  nil. What \<open>saveConfig\<close> returns does not enter the result; when it fails, the environment
  is as before, so the file does not hold the configuration that the model holds.
\<close>

theorem save_result_discarded:
  assumes "mutation L k m = Some c"
  shows "fst (update L (KeyMsg k) m w) = (refreshList (m\<lparr>config := c\<rparr>))\<lparr>state := managePresetsView\<rparr>
       \<and> config (fst (update L (KeyMsg k) m w)) = c
       \<and> items (list (fst (update L (KeyMsg k) m w))) = Presets c
       \<and> state (fst (update L (KeyMsg k) m w)) = managePresetsView
       \<and> fst (snd (update L (KeyMsg k) m w)) = CmdNil
       \<and> (fst (saveConfig L c w) \<noteq> None \<longrightarrow> snd (snd (update L (KeyMsg k) m w)) = w)"
  using update_mutation [OF assms, of w] saveConfig_failed [of L c w]
  by (simp add: refreshList_def SetItems_def)

lemma addModel_simps:
  "Value (nameInput (addModel a b)) = a"
  "Value (urlInput (addModel a b)) = b"
  "state (addModel a b) = addPresetView"
  "config (addModel a b) = config demoModel"
  by (simp_all add: addModel_def SetValue_def)

theorem save_result_discarded_witness:
  "mutation demoLib ''enter'' (addModel ''Test'' ''https://x/y'') =
     Some ((config demoModel)\<lparr>Presets := Presets getDefaultConfig @
       [\<lparr>Name = ''Test'', URL = ''https://x/y''\<rparr>]\<rparr>)
   \<and> fst (saveConfig demoLib ((config demoModel)\<lparr>Presets := Presets getDefaultConfig @
       [\<lparr>Name = ''Test'', URL = ''https://x/y''\<rparr>]\<rparr>) readOnlyWorld) \<noteq> None
   \<and> Presets (config (fst (update demoLib (KeyMsg ''enter'') (addModel ''Test'' ''https://x/y'')
        readOnlyWorld))) = Presets getDefaultConfig @ [\<lparr>Name = ''Test'', URL = ''https://x/y''\<rparr>]
   \<and> state (fst (update demoLib (KeyMsg ''enter'') (addModel ''Test'' ''https://x/y'')
        readOnlyWorld)) = managePresetsView
   \<and> fst (snd (update demoLib (KeyMsg ''enter'') (addModel ''Test'' ''https://x/y'')
        readOnlyWorld)) = CmdNil
   \<and> snd (snd (update demoLib (KeyMsg ''enter'') (addModel ''Test'' ''https://x/y'')
        readOnlyWorld)) = readOnlyWorld
   \<and> files readOnlyWorld ''/home/u/.config/lofitui/config.json'' = NotExist"
proof -
  have t: "TrimSpace demoLib ''Test'' = ''Test''" "TrimSpace demoLib ''https://x/y'' = ''https://x/y''"
    by (simp_all add: demoLib_def trimSpace_def isSpace_def)
  have mu: "mutation demoLib ''enter'' (addModel ''Test'' ''https://x/y'') =
     Some ((config demoModel)\<lparr>Presets := Presets getDefaultConfig @
       [\<lparr>Name = ''Test'', URL = ''https://x/y''\<rparr>]\<rparr>)"
    by (simp add: mutation_def addModel_simps t demoModel_simps)
  have d: "getConfigDir demoLib readOnlyWorld = Inr ''/home/u/.config/lofitui''"
    "getConfigPath demoLib readOnlyWorld = Inr ''/home/u/.config/lofitui/config.json''"
    by (simp_all add: getConfigPath_def getConfigDir_def demoLib_def demoWorld_def
        readOnlyWorld_def)
  have ro: "MkdirAll_error readOnlyWorld p = None"
    "WriteFile_error readOnlyWorld p = Some (errorString ''permission denied'')" for p
    by (simp_all add: readOnlyWorld_def demoWorld_def)
  have sv: "fst (saveConfig demoLib c readOnlyWorld) \<noteq> None" for c
    by (cases "MarshalIndent demoLib c") (simp_all add: saveConfig_def d ro)
  have fl: "files readOnlyWorld ''/home/u/.config/lofitui/config.json'' = NotExist"
    by (simp add: readOnlyWorld_def demoWorld_def)
  show ?thesis
    using save_result_discarded [OF mu, of readOnlyWorld] mu sv fl
    by (simp add: refreshList_def)
qed

text \<open>
  C5. After each of the four operations that change the configuration the list holds
  exactly the presets of the configuration, so the two counts agree, and the highlighted
  index is below the count whenever there is an entry.
\<close>

theorem list_matches_config_after_mutation:
  assumes "mutation L k m = Some c"
  shows "items (list (fst (update L (KeyMsg k) m w))) = Presets (config (fst (update L (KeyMsg k) m w)))
       \<and> length (items (list (fst (update L (KeyMsg k) m w)))) =
           length (Presets (config (fst (update L (KeyMsg k) m w))))
       \<and> (Presets (config (fst (update L (KeyMsg k) m w))) \<noteq> [] \<longrightarrow>
            Index (list (fst (update L (KeyMsg k) m w))) <
              length (Presets (config (fst (update L (KeyMsg k) m w)))))"
proof -
  have u: "fst (update L (KeyMsg k) m w) = (refreshList (m\<lparr>config := c\<rparr>))\<lparr>state := managePresetsView\<rparr>"
    using update_mutation [OF assms, of w] by simp
  have "Index (SetItems ps l) < length ps" if "ps \<noteq> []" for ps l
    using that by (cases ps) (simp_all add: SetItems_def min_def)
  then show ?thesis
    by (simp add: u refreshList_def) (simp add: SetItems_def)
qed

theorem list_matches_config_after_mutation_witness:
  "mutation demoLib ''y'' (deleteModel 9) =
     Some ((config demoModel)\<lparr>Presets := take 9 (Presets getDefaultConfig)\<rparr>)
   \<and> length (items (list (fst (update demoLib (KeyMsg ''y'') (deleteModel 9) demoWorld)))) = 9
   \<and> length (Presets (config (fst (update demoLib (KeyMsg ''y'') (deleteModel 9) demoWorld)))) = 9
   \<and> Index (list (deleteModel 9)) = 9
   \<and> Index (list (fst (update demoLib (KeyMsg ''y'') (deleteModel 9) demoWorld))) < 9"
proof -
  have mu: "mutation demoLib ''y'' (deleteModel 9) =
     Some ((config demoModel)\<lparr>Presets := take 9 (Presets getDefaultConfig)\<rparr>)"
    by (simp add: mutation_def deleteModel_simps demoModel_simps getDefaultConfig_def)
  have c: "config (fst (update demoLib (KeyMsg ''y'') (deleteModel 9) demoWorld)) =
      (config demoModel)\<lparr>Presets := take 9 (Presets getDefaultConfig)\<rparr>"
    using update_mutation [OF mu, of demoWorld] by (simp add: refreshList_def)
  have l: "length (take 9 (Presets getDefaultConfig)) = 9"
    by (simp add: getDefaultConfig_def)
  show ?thesis
    using list_matches_config_after_mutation [OF mu, of demoWorld] mu
    by (simp add: c l deleteModel_simps) (use l in auto)
qed




text \<open>
  C8. Saving after loading is stable. Whenever \<open>saveConfig\<close> has written a configuration,
  \<open>loadConfig\<close> on the resulting environment returns that configuration, and saving what
  was loaded succeeds and leaves the environment, the content of the file included, exactly
  as it was. The encoder and the decoder are the ones of the JSON section.
\<close>

theorem save_load_save_stable:
  assumes "MarshalIndent L = json_MarshalIndent" and "Unmarshal L = json_Unmarshal"
    and "saveConfig L c w = (None, w1)"
  shows "loadConfig L w1 = Inr c
       \<and> saveConfig L c w1 = (None, w1)
       \<and> (\<exists>p d. getConfigPath L w1 = Inr p \<and> json_MarshalIndent c = Inr d
             \<and> files w1 p = Data d \<and> files (snd (saveConfig L c w1)) p = Data d)"
proof -
  have rt: "Unmarshal L d = Inr c" if "MarshalIndent L c = Inr d" for d
    using that assms(1,2) by (simp add: json_round_trip)
  have l: "loadConfig L w1 = Inr c"
    using assms(3) rt by (rule load_after_save)
  have s: "saveConfig L c w1 = (None, w1)"
    using assms(3) by (rule save_after_save)
  obtain p d where "getConfigPath L w = Inr p" "MarshalIndent L c = Inr d"
    "w1 = w\<lparr>files := (files w)(p := Data d)\<rparr>"
    using saveConfig_written [OF assms(3)] by blast
  then have "getConfigPath L w1 = Inr p \<and> json_MarshalIndent c = Inr d \<and> files w1 p = Data d
      \<and> files (snd (saveConfig L c w1)) p = Data d"
    using assms(1) s by simp
  then show ?thesis
    using l s by blast
qed

theorem save_load_save_stable_witness:
  "MarshalIndent demoLib = json_MarshalIndent \<and> Unmarshal demoLib = json_Unmarshal
   \<and> saveConfig demoLib escapedConfig demoWorld = (None, escapedWorld)
   \<and> files escapedWorld ''/home/u/.config/lofitui/config.json'' \<noteq> NotExist
   \<and> loadConfig demoLib escapedWorld = Inr escapedConfig
   \<and> saveConfig demoLib escapedConfig escapedWorld = (None, escapedWorld)"
proof -
  have c: "MarshalIndent demoLib = json_MarshalIndent" "Unmarshal demoLib = json_Unmarshal"
    by (simp_all add: demoLib_def)
  have s: "saveConfig demoLib escapedConfig demoWorld = (None, escapedWorld)"
    using saveConfig_demo [of escapedConfig] by (simp add: escapedWorld_def prod_eq_iff)
  obtain p d where p: "getConfigPath demoLib demoWorld = Inr p"
    and w: "escapedWorld = demoWorld\<lparr>files := (files demoWorld)(p := Data d)\<rparr>"
    using saveConfig_written [OF s] by blast
  have "files (demoWorld\<lparr>files := (files demoWorld)(p := Data d)\<rparr>) p \<noteq> NotExist"
    by simp
  then have f: "files escapedWorld ''/home/u/.config/lofitui/config.json'' \<noteq> NotExist"
    using p w by (simp add: getConfigPath_demo)
  show ?thesis
    using save_load_save_stable [OF c s] c s f by simp
qed

end
